theory Spec2Isabelle
  imports Main "HOL-Library.Sublist"
begin

section \<open>JavaScript values\<close>

text \<open>
  The profile document, request bodies and responses are JavaScript values that come from
  or go to JSON. A string is a list of code units, here restricted to the 8-bit range
  (Latin-1). A number is represented by its decimal rendering (what \<open>String(n)\<close> gives),
  which is all the program ever does with one besides testing it for truth. A \<open>Date\<close> is
  represented by the string it is written as in JSON (\<open>toISOString()\<close>): the program
  creates dates and passes them on, and never looks into one. An object is the list of its
  own enumerable properties in enumeration order.
\<close>

datatype jsval =
    JUndefined
  | JNull
  | JBool bool
  | JNum string
  | JStr string
  | JArr "jsval list"
  | JObj "(string \<times> jsval) list"

text \<open>Exceptions: a \<open>TypeError\<close> raised by the language, or an \<open>Error\<close> with its message.\<close>

datatype exn = TypeError | Error string

definition bindE :: "exn + 'a \<Rightarrow> ('a \<Rightarrow> exn + 'b) \<Rightarrow> exn + 'b" where
  "bindE m f = (case m of Inl e \<Rightarrow> Inl e | Inr x \<Rightarrow> f x)"

fun filterE :: "('a \<Rightarrow> exn + bool) \<Rightarrow> 'a list \<Rightarrow> exn + 'a list" where
  "filterE p [] = Inr []"
| "filterE p (x # xs) =
     bindE (p x) (\<lambda>b. bindE (filterE p xs) (\<lambda>ys. Inr (if b then x # ys else ys)))"

text \<open>\<open>own kvs k\<close> is the value of the own property \<open>k\<close>, or \<open>undefined\<close>.\<close>

definition own :: "(string \<times> jsval) list \<Rightarrow> string \<Rightarrow> jsval" where
  "own kvs k = (case map_of kvs k of None \<Rightarrow> JUndefined | Some v \<Rightarrow> v)"

text \<open>
  \<open>x.k\<close> for the property names the program reads (none of them is inherited from a
  prototype of a JSON value): a \<open>TypeError\<close> on \<open>undefined\<close> and \<open>null\<close>, the own
  property on an object, \<open>undefined\<close> on everything else.
\<close>

fun getp :: "jsval \<Rightarrow> string \<Rightarrow> exn + jsval" where
  "getp JUndefined k = Inl TypeError"
| "getp JNull k = Inl TypeError"
| "getp (JObj kvs) k = Inr (own kvs k)"
| "getp v k = Inr JUndefined"

text \<open>\<open>o[k] = v\<close> on the property list: an existing key keeps its place, a new one is appended.\<close>

fun put :: "(string \<times> jsval) list \<Rightarrow> string \<Rightarrow> jsval \<Rightarrow> (string \<times> jsval) list" where
  "put [] k v = [(k, v)]"
| "put ((k', v') # kvs) k v = (if k' = k then (k, v) # kvs else (k', v') # put kvs k v)"

fun truthy :: "jsval \<Rightarrow> bool" where
  "truthy JUndefined = False"
| "truthy JNull = False"
| "truthy (JBool b) = b"
| "truthy (JNum s) = (s \<noteq> ''0'' \<and> s \<noteq> ''NaN'')"
| "truthy (JStr s) = (s \<noteq> [])"
| "truthy (JArr xs) = True"
| "truthy (JObj kvs) = True"

section \<open>Strings\<close>

text \<open>\<open>String.prototype.toLowerCase\<close> on Latin-1 code units.\<close>

definition lower_char :: "char \<Rightarrow> char" where
  "lower_char c =
     (let n = (of_char c :: nat)
      in if (65 \<le> n \<and> n \<le> 90) \<or> (192 \<le> n \<and> n \<le> 222 \<and> n \<noteq> 215)
         then char_of (n + 32) else c)"

definition toLowerCase :: "string \<Rightarrow> string" where
  "toLowerCase s = map lower_char s"

text \<open>\<open>s.split(d)\<close> for a one-character separator: \<open>''''.split(d)\<close> is \<open>['''']\<close>.\<close>

fun split :: "char \<Rightarrow> string \<Rightarrow> string list" where
  "split d [] = [[]]"
| "split d (c # cs) =
     (if c = d then [] # split d cs
      else (case split d cs of [] \<Rightarrow> [[c]] | w # ws \<Rightarrow> (c # w) # ws))"

text \<open>\<open>text.includes(term)\<close>: \<open>term\<close> occurs in \<open>text\<close> as a contiguous run.\<close>

fun includes_str :: "string \<Rightarrow> string \<Rightarrow> bool" where
  "includes_str [] t = (t = [])"
| "includes_str (c # cs) t = (prefix t (c # cs) \<or> includes_str cs t)"

text \<open>\<open>xs.join(sep)\<close> on strings already converted.\<close>

fun join :: "string \<Rightarrow> string list \<Rightarrow> string" where
  "join sep [] = []"
| "join sep [x] = x"
| "join sep (x # y # ys) = x @ sep @ join sep (y # ys)"

section \<open>\<open>JSON.stringify\<close>\<close>

definition hexdigit :: "nat \<Rightarrow> char" where
  "hexdigit n = ''0123456789abcdef'' ! (n mod 16)"

definition escape_char :: "char \<Rightarrow> string" where
  "escape_char c =
     (let n = (of_char c :: nat)
      in if c = CHR 0x22 then [CHR 0x5C, CHR 0x22]
         else if c = CHR 0x5C then [CHR 0x5C, CHR 0x5C]
         else if c = CHR 0x08 then [CHR 0x5C, CHR ''b'']
         else if c = CHR 0x0C then [CHR 0x5C, CHR ''f'']
         else if c = CHR 0x0A then [CHR 0x5C, CHR ''n'']
         else if c = CHR 0x0D then [CHR 0x5C, CHR ''r'']
         else if c = CHR 0x09 then [CHR 0x5C, CHR ''t'']
         else if n < 32 then [CHR 0x5C, CHR ''u'', CHR ''0'', CHR ''0'', hexdigit (n div 16), hexdigit n]
         else [c])"

definition quote :: "string \<Rightarrow> string" where
  "quote s = [CHR 0x22] @ concat (map escape_char s) @ [CHR 0x22]"

text \<open>
  \<open>JSON.stringify(v)\<close> without indentation; \<open>None\<close> is the result \<open>undefined\<close>. An
  \<open>undefined\<close> array element is written \<open>null\<close>, an \<open>undefined\<close> property is left out,
  a number that is not finite is written \<open>null\<close>.
\<close>

fun stringify :: "jsval \<Rightarrow> string option" where
  "stringify JUndefined = None"
| "stringify JNull = Some ''null''"
| "stringify (JBool b) = Some (if b then ''true'' else ''false'')"
| "stringify (JNum s) =
     Some (if s = ''Infinity'' \<or> s = ''-Infinity'' \<or> s = ''NaN'' then ''null'' else s)"
| "stringify (JStr s) = Some (quote s)"
| "stringify (JArr xs) =
     Some (''['' @ join '','' (map (\<lambda>x. case stringify x of None \<Rightarrow> ''null'' | Some t \<Rightarrow> t) xs)
           @ '']'')"
| "stringify (JObj kvs) =
     Some (''{'' @ join '',''
             (concat (map (\<lambda>kv. case stringify (snd kv) of None \<Rightarrow> []
                                 | Some t \<Rightarrow> [quote (fst kv) @ '':'' @ t]) kvs))
           @ ''}'')"

section \<open>Profile store: reading\<close>

text \<open>
  The data file holds one JSON object, or cannot be read (\<open>None\<close>): it is created as
  an object by \<open>initializeDataFile\<close>, and \<open>updateData\<close> and \<open>updateSection\<close> only
  ever write an object back. \<open>getAllData\<close> returns the parsed object, and \<open>null\<close> when
  reading fails.
\<close>

type_synonym datafile = "(string \<times> jsval) list option"

definition getAllData :: "datafile \<Rightarrow> jsval" where
  "getAllData f = (case f of None \<Rightarrow> JNull | Some d \<Rightarrow> JObj d)"

section \<open>Relevance search\<close>

definition containsTerms :: "string \<Rightarrow> string list \<Rightarrow> bool" where
  "containsTerms text terms = list_ex (\<lambda>term. includes_str text term) terms"

text \<open>\<open>JSON.stringify(v).toLowerCase()\<close>: a \<open>TypeError\<close> when \<open>v\<close> is \<open>undefined\<close>.\<close>

definition flatText :: "jsval \<Rightarrow> exn + string" where
  "flatText v = (case stringify v of None \<Rightarrow> Inl TypeError | Some t \<Rightarrow> Inr (toLowerCase t))"

definition matchesTerms :: "string list \<Rightarrow> jsval \<Rightarrow> exn + bool" where
  "matchesTerms terms v = bindE (flatText v) (\<lambda>t. Inr (containsTerms t terms))"

text \<open>
  \<open>section?.filter(e => containsTerms(...))\<close>: \<open>undefined\<close> (here \<open>None\<close>) when the
  section is \<open>undefined\<close> or \<open>null\<close>, the filtered array when it is an array, and a
  \<open>TypeError\<close> otherwise, since no other JSON value has a callable \<open>filter\<close>.
\<close>

fun filterSection :: "string list \<Rightarrow> jsval \<Rightarrow> exn + jsval list option" where
  "filterSection terms JUndefined = Inr None"
| "filterSection terms JNull = Inr None"
| "filterSection terms (JArr xs) = bindE (filterE (matchesTerms terms) xs) (\<lambda>ys. Inr (Some ys))"
| "filterSection terms v = Inl TypeError"

text \<open>\<open>if (relevant?.length > 0) relevantData[k] = relevant\<close>\<close>

definition addSection ::
  "string \<Rightarrow> jsval list option \<Rightarrow> (string \<times> jsval) list \<Rightarrow> (string \<times> jsval) list" where
  "addSection k r acc =
     (case r of None \<Rightarrow> acc
      | Some ys \<Rightarrow> if length ys > 0 then put acc k (JArr ys) else acc)"

text \<open>The body of the \<open>try\<close> block of \<open>searchRelevantData\<close>, after \<open>getAllData\<close>.\<close>

definition searchBody :: "string \<Rightarrow> jsval \<Rightarrow> exn + (string \<times> jsval) list" where
  "searchBody query data =
     (let searchTerms = split CHR '' '' (toLowerCase query) in
      bindE (getp data ''biography'') (\<lambda>biography.
      bindE (matchesTerms searchTerms biography) (\<lambda>bioHit.
      let r1 = (if bioHit then put [] ''biography'' biography else []) in
      bindE (getp data ''skills'') (\<lambda>skills.
      bindE (filterSection searchTerms skills) (\<lambda>relevantSkills.
      let r2 = addSection ''skills'' relevantSkills r1 in
      bindE (getp data ''projects'') (\<lambda>projects.
      bindE (filterSection searchTerms projects) (\<lambda>relevantProjects.
      let r3 = addSection ''projects'' relevantProjects r2 in
      bindE (getp data ''experience'') (\<lambda>experience.
      bindE (filterSection searchTerms experience) (\<lambda>relevantExperience.
      let r4 = addSection ''experience'' relevantExperience r3 in
      bindE (getp data ''preferences'') (\<lambda>preferences.
      Inr (if truthy preferences then put r4 ''preferences'' preferences else r4)))))))))))"

text \<open>\<open>searchRelevantData\<close>: any exception is caught and the empty object returned.\<close>

definition searchRelevantData :: "string \<Rightarrow> datafile \<Rightarrow> (string \<times> jsval) list" where
  "searchRelevantData query f =
     (case searchBody query (getAllData f) of Inl e \<Rightarrow> [] | Inr r \<Rightarrow> r)"

section \<open>Schema validation\<close>

text \<open>
  \<open>personalDataSchema.validate\<close> is the Joi library's validator (version 17, default
  options: the first error aborts, values are converted, unknown keys are refused, keys are
  optional unless required, an array may not hold \<open>undefined\<close>). The schema below is the
  one of the source; the validator is modelled for the schema types the source uses. What
  the library decides about the text of a number, a date or a URI is left to three
  parameters, and so is the clock read by \<open>default(Date.now)\<close>.
\<close>

datatype seg = Key string | Idx nat

function show_nat :: "nat \<Rightarrow> string" where
  "show_nat n =
     (if n < 10 then [char_of (48 + n)] else show_nat (n div 10) @ [char_of (48 + n mod 10)])"
  by pat_completeness auto
termination
  by (relation "measure id") auto

text \<open>The label of an error: the path, keys joined by dots and indices in brackets.\<close>

fun path_label :: "string \<Rightarrow> seg list \<Rightarrow> string" where
  "path_label acc [] = acc"
| "path_label acc (Key k # p) = path_label (acc @ (if acc = [] then [] else ''.'') @ k) p"
| "path_label acc (Idx i # p) = path_label (acc @ ''['' @ show_nat i @ '']'') p"

definition label :: "seg list \<Rightarrow> string" where
  "label p = (let l = path_label [] p in if l = [] then ''value'' else l)"

type_synonym verror = "seg list \<times> string"

definition verr :: "seg list \<Rightarrow> string \<Rightarrow> verror + 'a" where
  "verr p what = Inl (p, [CHR 0x22] @ label p @ [CHR 0x22] @ '' '' @ what)"

record joi_env =
  joi_number :: "jsval \<Rightarrow> string + string"
  joi_date :: "jsval \<Rightarrow> string option"
  joi_uri :: "string \<Rightarrow> bool"
  date_now :: "seg list \<Rightarrow> string"

datatype presence = Optional | Required

datatype dflt = NoDefault | Default jsval | DefaultDateNow

datatype schema =
    JoiString
  | JoiStringValid "string list"
  | JoiStringUri
  | JoiNumber
  | JoiDate
  | JoiBoolean
  | JoiArray schema
  | JoiObject "keyspec list"
and keyspec = KeySpec string presence dflt schema

text \<open>The first error of a list of results, or all the values.\<close>

fun firstError :: "('e + 'a) list \<Rightarrow> 'e + 'a list" where
  "firstError [] = Inr []"
| "firstError (Inl e # rs) = Inl e"
| "firstError (Inr x # rs) = (case firstError rs of Inl e \<Rightarrow> Inl e | Inr xs \<Rightarrow> Inr (x # xs))"

definition delete_key :: "(string \<times> jsval) list \<Rightarrow> string \<Rightarrow> (string \<times> jsval) list" where
  "delete_key kvs k = filter (\<lambda>kv. fst kv \<noteq> k) kvs"

text \<open>
  After a key of an object schema has validated: the key is deleted when the result is
  \<open>undefined\<close> and the input was not, and set when the result is defined.
\<close>

definition storeKey ::
  "(string \<times> jsval) list \<Rightarrow> (string \<times> jsval) list \<Rightarrow> string \<times> jsval
   \<Rightarrow> (string \<times> jsval) list" where
  "storeKey orig val kr =
     (if snd kr = JUndefined
      then (if own orig (fst kr) \<noteq> JUndefined then delete_key val (fst kr) else val)
      else put val (fst kr) (snd kr))"

definition spec_key :: "keyspec \<Rightarrow> string" where
  "spec_key ks = (case ks of KeySpec k pr d s \<Rightarrow> k)"

definition onlyMessage :: "string list \<Rightarrow> string" where
  "onlyMessage vs =
     ''must be '' @ (if length vs = 1 then [] else ''one of '') @ ''['' @ join '', '' vs @ '']''"

fun validate :: "joi_env \<Rightarrow> seg list \<Rightarrow> schema \<Rightarrow> jsval \<Rightarrow> verror + jsval"
and validate_key ::
  "joi_env \<Rightarrow> seg list \<Rightarrow> (string \<times> jsval) list \<Rightarrow> keyspec \<Rightarrow> verror + jsval"
where
  "validate env p JoiString v =
     (case v of
        JStr s \<Rightarrow> if s = [] then verr p ''is not allowed to be empty'' else Inr v
      | _ \<Rightarrow> verr p ''must be a string'')"
| "validate env p (JoiStringValid vs) v =
     (case v of
        JStr s \<Rightarrow> if s \<in> set vs then Inr v else verr p (onlyMessage vs)
      | _ \<Rightarrow> verr p (onlyMessage vs))"
| "validate env p JoiStringUri v =
     (case v of
        JStr s \<Rightarrow> if s = [] then verr p ''is not allowed to be empty''
                  else if joi_uri env s then Inr v else verr p ''must be a valid uri''
      | _ \<Rightarrow> verr p ''must be a string'')"
| "validate env p JoiNumber v =
     (case joi_number env v of Inl what \<Rightarrow> verr p what | Inr n \<Rightarrow> Inr (JNum n))"
| "validate env p JoiDate v =
     (case joi_date env v of None \<Rightarrow> verr p ''must be a valid date'' | Some d \<Rightarrow> Inr (JStr d))"
| "validate env p JoiBoolean v =
     (case v of
        JBool b \<Rightarrow> Inr v
      | JStr s \<Rightarrow> if toLowerCase s = ''true'' then Inr (JBool True)
                  else if toLowerCase s = ''false'' then Inr (JBool False)
                  else verr p ''must be a boolean''
      | _ \<Rightarrow> verr p ''must be a boolean'')"
| "validate env p (JoiArray item) v =
     (case v of
        JArr xs \<Rightarrow>
          (case firstError (map (\<lambda>ix. if snd ix = JUndefined
                                       then verr (p @ [Idx (fst ix)]) ''must not be a sparse array item''
                                       else validate env (p @ [Idx (fst ix)]) item (snd ix))
                             (zip [0 ..< length xs] xs)) of
             Inl e \<Rightarrow> Inl e
           | Inr ys \<Rightarrow> Inr (JArr ys))
      | _ \<Rightarrow> verr p ''must be an array'')"
| "validate env p (JoiObject specs) v =
     (case v of
        JObj kvs \<Rightarrow>
          (case firstError (map (validate_key env p kvs) specs) of
             Inl e \<Rightarrow> Inl e
           | Inr rs \<Rightarrow>
               (case filter (\<lambda>k. k \<notin> set (map spec_key specs)) (map fst kvs) of
                  [] \<Rightarrow> Inr (JObj (foldl (storeKey kvs) kvs (zip (map spec_key specs) rs)))
                | k # ks \<Rightarrow> verr (p @ [Key k]) ''is not allowed''))
      | _ \<Rightarrow> verr p ''must be of type object'')"
| "validate_key env p kvs (KeySpec k pr d s) =
     (if own kvs k = JUndefined
      then (case pr of
              Required \<Rightarrow> verr (p @ [Key k]) ''is required''
            | Optional \<Rightarrow>
                Inr (case d of
                       NoDefault \<Rightarrow> JUndefined
                     | Default dv \<Rightarrow> dv
                     | DefaultDateNow \<Rightarrow> JNum (date_now env (p @ [Key k]))))
      else validate env (p @ [Key k]) s (own kvs k))"

text \<open>\<open>personalDataSchema\<close>, key by key as in the source.\<close>

definition optionalKey :: "string \<Rightarrow> schema \<Rightarrow> keyspec" where
  "optionalKey k s = KeySpec k Optional NoDefault s"

definition requiredKey :: "string \<Rightarrow> schema \<Rightarrow> keyspec" where
  "requiredKey k s = KeySpec k Required NoDefault s"

definition biographySchema :: schema where
  "biographySchema = JoiObject
     [requiredKey ''name'' JoiString,
      requiredKey ''title'' JoiString,
      requiredKey ''description'' JoiString,
      optionalKey ''location'' JoiString,
      optionalKey ''age'' JoiNumber,
      optionalKey ''background'' JoiString]"

definition skillSchema :: schema where
  "skillSchema = JoiObject
     [optionalKey ''id'' JoiString,
      requiredKey ''name'' JoiString,
      requiredKey ''category'' JoiString,
      requiredKey ''proficiency'' (JoiStringValid [''beginner'', ''intermediate'', ''advanced'', ''expert'']),
      optionalKey ''yearsOfExperience'' JoiNumber,
      optionalKey ''description'' JoiString]"

definition projectSchema :: schema where
  "projectSchema = JoiObject
     [optionalKey ''id'' JoiString,
      requiredKey ''name'' JoiString,
      requiredKey ''description'' JoiString,
      optionalKey ''technologies'' (JoiArray JoiString),
      requiredKey ''status'' (JoiStringValid [''completed'', ''in-progress'', ''planned'', ''archived'']),
      optionalKey ''startDate'' JoiDate,
      optionalKey ''endDate'' JoiDate,
      optionalKey ''repositoryUrl'' JoiStringUri,
      optionalKey ''demoUrl'' JoiStringUri,
      optionalKey ''role'' JoiString,
      optionalKey ''achievements'' (JoiArray JoiString)]"

definition preferencesSchema :: schema where
  "preferencesSchema = JoiObject
     [optionalKey ''workStyle'' JoiString,
      optionalKey ''interests'' (JoiArray JoiString),
      optionalKey ''goals'' (JoiArray JoiString),
      optionalKey ''values'' (JoiArray JoiString),
      optionalKey ''communicationStyle'' JoiString,
      optionalKey ''preferredTechnologies'' (JoiArray JoiString)]"

definition socialLinkSchema :: schema where
  "socialLinkSchema = JoiObject
     [optionalKey ''id'' JoiString,
      requiredKey ''platform'' JoiString,
      requiredKey ''url'' JoiStringUri,
      optionalKey ''username'' JoiString,
      KeySpec ''isPublic'' Optional (Default (JBool True)) JoiBoolean]"

definition experienceSchema :: schema where
  "experienceSchema = JoiObject
     [optionalKey ''id'' JoiString,
      requiredKey ''company'' JoiString,
      requiredKey ''position'' JoiString,
      requiredKey ''startDate'' JoiDate,
      optionalKey ''endDate'' JoiDate,
      optionalKey ''description'' JoiString,
      optionalKey ''achievements'' (JoiArray JoiString),
      optionalKey ''technologies'' (JoiArray JoiString),
      KeySpec ''isCurrent'' Optional (Default (JBool False)) JoiBoolean]"

definition educationSchema :: schema where
  "educationSchema = JoiObject
     [optionalKey ''id'' JoiString,
      requiredKey ''institution'' JoiString,
      requiredKey ''degree'' JoiString,
      requiredKey ''field'' JoiString,
      optionalKey ''startDate'' JoiDate,
      optionalKey ''endDate'' JoiDate,
      optionalKey ''gpa'' JoiNumber,
      optionalKey ''achievements'' (JoiArray JoiString)]"

definition metadataSchema :: schema where
  "metadataSchema = JoiObject
     [KeySpec ''createdAt'' Optional DefaultDateNow JoiDate,
      KeySpec ''updatedAt'' Optional DefaultDateNow JoiDate,
      KeySpec ''version'' Optional (Default (JStr ''1.0.0'')) JoiString]"

definition personalDataSchema :: schema where
  "personalDataSchema = JoiObject
     [optionalKey ''id'' JoiString,
      optionalKey ''biography'' biographySchema,
      optionalKey ''skills'' (JoiArray skillSchema),
      optionalKey ''projects'' (JoiArray projectSchema),
      optionalKey ''preferences'' preferencesSchema,
      optionalKey ''socialLinks'' (JoiArray socialLinkSchema),
      optionalKey ''experience'' (JoiArray experienceSchema),
      optionalKey ''education'' (JoiArray educationSchema),
      optionalKey ''metadata'' metadataSchema]"

text \<open>
  \<open>personalDataSchema.validate(data)\<close>. The schema is optional at the root: \<open>undefined\<close>
  validates, and the value is \<open>undefined\<close>.
\<close>

definition validateData :: "joi_env \<Rightarrow> jsval \<Rightarrow> verror + jsval" where
  "validateData env newData =
     (if newData = JUndefined then Inr JUndefined else validate env [] personalDataSchema newData)"

section \<open>Profile store: writing\<close>

text \<open>
  What \<open>fs.writeJson\<close> followed by \<open>fs.readJson\<close> makes of a value: an \<open>undefined\<close>
  property disappears, an \<open>undefined\<close> array element and a number that is not finite
  become \<open>null\<close>.
\<close>

fun toJSON :: "jsval \<Rightarrow> jsval" where
  "toJSON JUndefined = JNull"
| "toJSON JNull = JNull"
| "toJSON (JBool b) = JBool b"
| "toJSON (JNum s) = (if s = ''Infinity'' \<or> s = ''-Infinity'' \<or> s = ''NaN'' then JNull else JNum s)"
| "toJSON (JStr s) = JStr s"
| "toJSON (JArr xs) = JArr (map toJSON xs)"
| "toJSON (JObj kvs) =
     JObj (map (\<lambda>kv. (fst kv, toJSON (snd kv))) (filter (\<lambda>kv. snd kv \<noteq> JUndefined) kvs))"

definition writeJson :: "(string \<times> jsval) list \<Rightarrow> datafile" where
  "writeJson v = (case toJSON (JObj v) of JObj kvs \<Rightarrow> Some kvs | _ \<Rightarrow> None)"

text \<open>
  The own enumerable properties copied by \<open>{...x}\<close>: those of an object, the indexed
  elements of an array or a string, none of any other value.
\<close>

fun spread :: "jsval \<Rightarrow> (string \<times> jsval) list" where
  "spread (JObj kvs) = kvs"
| "spread (JArr xs) = map (\<lambda>ix. (show_nat (fst ix), snd ix)) (zip [0 ..< length xs] xs)"
| "spread (JStr s) = map (\<lambda>ic. (show_nat (fst ic), JStr [snd ic])) (zip [0 ..< length s] s)"
| "spread v = []"

text \<open>
  \<open>entries.map(e => ({...e, id: e.id || uuidv4()}))\<close>. The identifiers \<open>uuidv4()\<close>
  returns are a parameter: \<open>uuid n\<close> is the result of its \<open>n\<close>-th call during this request.
\<close>

fun addIds :: "(nat \<Rightarrow> string) \<Rightarrow> nat \<Rightarrow> jsval list \<Rightarrow> exn + (jsval list \<times> nat)" where
  "addIds uuid n [] = Inr ([], n)"
| "addIds uuid n (x # xs) =
     bindE (getp x ''id'') (\<lambda>i.
     let idn = (if truthy i then (i, n) else (JStr (uuid n), Suc n)) in
     bindE (addIds uuid (snd idn) xs) (\<lambda>r.
     Inr (JObj (put (spread x) ''id'' (fst idn)) # fst r, snd r)))"

text \<open>\<open>if (value[k]) value[k] = value[k].map(...)\<close>; only an array has a callable \<open>map\<close>.\<close>

definition addSectionIds ::
  "(nat \<Rightarrow> string) \<Rightarrow> string \<Rightarrow> (string \<times> jsval) list \<times> nat
   \<Rightarrow> exn + ((string \<times> jsval) list \<times> nat)" where
  "addSectionIds uuid k vn =
     (if truthy (own (fst vn) k)
      then (case own (fst vn) k of
              JArr xs \<Rightarrow> bindE (addIds uuid (snd vn) xs) (\<lambda>r. Inr (put (fst vn) k (JArr (fst r)), snd r))
            | _ \<Rightarrow> Inl TypeError)
      else Inr vn)"

text \<open>
  \<open>updateData(newData)\<close> at the moment \<open>now\<close> (the value of \<open>new Date()\<close>), on the data file
  \<open>f\<close>: the result or the exception thrown, and the data file afterwards.
\<close>

definition updateData ::
  "joi_env \<Rightarrow> string \<Rightarrow> (nat \<Rightarrow> string) \<Rightarrow> jsval \<Rightarrow> datafile \<Rightarrow> (exn + jsval) \<times> datafile" where
  "updateData env now uuid newData f =
     (case validateData env newData of
        Inl e \<Rightarrow> (Inl (Error (''Validation error: '' @ snd e)), f)
      | Inr validated \<Rightarrow>
          (case validated of
             JObj v0 \<Rightarrow>
               (case bindE (addSectionIds uuid ''skills'' (v0, 0)) (\<lambda>v1.
                     bindE (addSectionIds uuid ''projects'' v1) (\<lambda>v2.
                     bindE (addSectionIds uuid ''socialLinks'' v2) (\<lambda>v3.
                     bindE (addSectionIds uuid ''experience'' v3) (\<lambda>v4.
                     addSectionIds uuid ''education'' v4)))) of
                  Inl e \<Rightarrow> (Inl e, f)
                | Inr v5 \<Rightarrow>
                    (let metadata = put (put (spread (own (fst v5) ''metadata''))
                                          ''updatedAt'' (JStr now)) ''version'' (JStr ''1.0.0'');
                         val = put (fst v5) ''metadata'' (JObj metadata)
                     in (Inr (JObj val), writeJson val)))
           | _ \<Rightarrow> (Inl TypeError, f)))"

text \<open>
  \<open>updateSection(sectionName, sectionData)\<close>. The assignment
  \<open>currentData.metadata.updatedAt = new Date()\<close> runs in strict mode (a class body): it
  throws on \<open>undefined\<close>, \<open>null\<close> and on a primitive value, and on an array it sets a
  property that JSON does not show. The section name \<open>__proto__\<close>, which JavaScript treats
  as the prototype and not as a property when the document has no own property of that
  name, is outside this model.
\<close>

definition touchMetadata :: "string \<Rightarrow> (string \<times> jsval) list \<Rightarrow> exn + (string \<times> jsval) list" where
  "touchMetadata now cur =
     (case own cur ''metadata'' of
        JObj m \<Rightarrow> Inr (put cur ''metadata'' (JObj (put m ''updatedAt'' (JStr now))))
      | JArr xs \<Rightarrow> Inr cur
      | _ \<Rightarrow> Inl TypeError)"

definition updateSection ::
  "string \<Rightarrow> string \<Rightarrow> jsval \<Rightarrow> datafile \<Rightarrow> (exn + jsval) \<times> datafile" where
  "updateSection now sectionName sectionData f =
     (case getAllData f of
        JObj currentData \<Rightarrow>
          (case touchMetadata now (put currentData sectionName sectionData) of
             Inl e \<Rightarrow> (Inl e, f)
           | Inr cur \<Rightarrow> (Inr (own cur sectionName), writeJson cur))
      | _ \<Rightarrow> (Inl TypeError, f))"

text \<open>
  The document \<open>initializeDataFile\<close> writes at the moment \<open>now\<close> when there is no data
  file (in the examples below the file is then missing, not unreadable).
\<close>

definition initialData :: "string \<Rightarrow> (string \<times> jsval) list" where
  "initialData now =
     [(''biography'', JObj [(''name'', JStr ''Your Name''),
                            (''title'', JStr ''Your Title''),
                            (''description'', JStr ''Add your personal description here''),
                            (''location'', JStr ''Your Location'')]),
      (''skills'', JArr []),
      (''projects'', JArr []),
      (''preferences'', JObj [(''interests'', JArr []), (''goals'', JArr [])]),
      (''socialLinks'', JArr []),
      (''experience'', JArr []),
      (''education'', JArr []),
      (''metadata'', JObj [(''createdAt'', JStr now),
                           (''updatedAt'', JStr now),
                           (''version'', JStr ''1.0.0'')])]"

definition initializeDataFile :: "string \<Rightarrow> datafile \<Rightarrow> datafile" where
  "initializeDataFile now f = (case f of None \<Rightarrow> writeJson (initialData now) | Some d \<Rightarrow> f)"

section \<open>Prompt composer\<close>

text \<open>
  \<open>String(v)\<close>, as a template literal applies it. An array joins its elements with commas,
  \<open>null\<close> and \<open>undefined\<close> elements giving the empty string. An object gives
  \<open>[object Object]\<close>, unless it has an own property \<open>toString\<close>, which in a JSON value is
  never callable: then the conversion throws.
\<close>

fun toStr :: "jsval \<Rightarrow> exn + string" where
  "toStr JUndefined = Inr ''undefined''"
| "toStr JNull = Inr ''null''"
| "toStr (JBool b) = Inr (if b then ''true'' else ''false'')"
| "toStr (JNum s) = Inr s"
| "toStr (JStr s) = Inr s"
| "toStr (JArr xs) =
     (case firstError (map (\<lambda>x. if x = JUndefined \<or> x = JNull then Inr [] else toStr x) xs) of
        Inl e \<Rightarrow> Inl e
      | Inr ss \<Rightarrow> Inr (join '','' ss))"
| "toStr (JObj kvs) =
     (if ''toString'' \<in> set (map fst kvs) then Inl TypeError else Inr ''[object Object]'')"

text \<open>\<open>v.join(sep)\<close>: only an array has a callable \<open>join\<close>.\<close>

definition joinArr :: "string \<Rightarrow> jsval \<Rightarrow> exn + string" where
  "joinArr sep v =
     (case v of
        JArr xs \<Rightarrow>
          (case firstError (map (\<lambda>x. if x = JUndefined \<or> x = JNull then Inr [] else toStr x) xs) of
             Inl e \<Rightarrow> Inl e
           | Inr ss \<Rightarrow> Inr (join sep ss))
      | _ \<Rightarrow> Inl TypeError)"

text \<open>The pieces appended to \<open>prompt\<close> one after the other; the first exception wins.\<close>

definition catE :: "(exn + string) list \<Rightarrow> exn + string" where
  "catE ps = (case firstError ps of Inl e \<Rightarrow> Inl e | Inr ss \<Rightarrow> Inr (concat ss))"

text \<open>\<open>${x.k}\<close>\<close>

definition field :: "jsval \<Rightarrow> string \<Rightarrow> exn + string" where
  "field x k = bindE (getp x k) toStr"

text \<open>\<open>if (x.k) prompt += pre + x.k + post\<close>\<close>

definition optField :: "jsval \<Rightarrow> string \<Rightarrow> string \<Rightarrow> string \<Rightarrow> exn + string" where
  "optField x k pre post =
     bindE (getp x k) (\<lambda>v. if truthy v then bindE (toStr v) (\<lambda>t. Inr (pre @ t @ post)) else Inr [])"

text \<open>\<open>if (x.k) prompt += pre + x.k.join(', ') + post\<close>\<close>

definition optJoined :: "jsval \<Rightarrow> string \<Rightarrow> string \<Rightarrow> string \<Rightarrow> exn + string" where
  "optJoined x k pre post =
     bindE (getp x k) (\<lambda>v. if truthy v then bindE (joinArr '', '' v) (\<lambda>t. Inr (pre @ t @ post)) else Inr [])"

definition preamble :: string where
  "preamble =
     ''You are a helpful AI assistant that answers questions about a specific person based on their personal information. You should respond naturally and conversationally, as if you know this person well.\<newline>''
   @ ''\<newline>''
   @ ''IMPORTANT INSTRUCTIONS:\<newline>''
   @ ''- Always refer to the person in third person (he/she/they) when answering questions about them\<newline>''
   @ ''- Use the personal information provided to give specific, accurate answers\<newline>''
   @ ''- If asked about something not in the personal data, say you don't have that information\<newline>''
   @ ''- Be friendly, professional, and helpful\<newline>''
   @ ''- Keep responses concise but informative\<newline>''
   @ ''- If no personal context is provided, explain that you need personal data to answer specific questions about the person\<newline>''
   @ ''\<newline>''"

definition biographyBlock :: "jsval \<Rightarrow> exn + string" where
  "biographyBlock b =
     (if truthy b
      then catE [Inr ''\<newline>Basic Info:\<newline>'',
                 bindE (field b ''name'') (\<lambda>t. Inr (''- Name: '' @ t @ ''\<newline>'')),
                 bindE (field b ''title'') (\<lambda>t. Inr (''- Title: '' @ t @ ''\<newline>'')),
                 bindE (field b ''description'') (\<lambda>t. Inr (''- Description: '' @ t @ ''\<newline>'')),
                 optField b ''location'' ''- Location: '' ''\<newline>'',
                 optField b ''background'' ''- Background: '' ''\<newline>'']
      else Inr [])"

definition skillLine :: "jsval \<Rightarrow> exn + string" where
  "skillLine skill =
     catE [bindE (field skill ''name'') (\<lambda>n.
           bindE (field skill ''proficiency'') (\<lambda>p.
           bindE (field skill ''category'') (\<lambda>c.
           Inr (''- '' @ n @ '' ('' @ p @ '' level, '' @ c @ '')'')))),
           optField skill ''yearsOfExperience'' '' - '' '' years experience'',
           optField skill ''description'' '' - '' [],
           Inr ''\<newline>'']"

definition projectLine :: "jsval \<Rightarrow> exn + string" where
  "projectLine project =
     catE [bindE (field project ''name'') (\<lambda>n.
           bindE (field project ''description'') (\<lambda>d.
           Inr (''- '' @ n @ '': '' @ d))),
           optJoined project ''technologies'' '' (Technologies: '' '')'',
           bindE (field project ''status'') (\<lambda>t. Inr ('' [Status: '' @ t @ '']\<newline>''))]"

definition experienceLine :: "jsval \<Rightarrow> exn + string" where
  "experienceLine exp =
     catE [bindE (field exp ''position'') (\<lambda>p.
           bindE (field exp ''company'') (\<lambda>c.
           Inr (''- '' @ p @ '' at '' @ c))),
           bindE (getp exp ''isCurrent'') (\<lambda>v. Inr (if truthy v then '' (Current)'' else [])),
           optField exp ''description'' '': '' [],
           Inr ''\<newline>'']"

text \<open>
  \<open>n > 0\<close> for the value \<open>n\<close> of an own \<open>length\<close> property: \<open>undefined\<close> is
  \<open>NaN\<close> and \<open>null\<close> is zero, \<open>true\<close> is one, and a number is positive unless it is
  zero, \<open>NaN\<close> or written with a minus sign. Text, an array and an object are first
  converted to a number by rules that this model does not follow: there the comparison is
  given the result \<open>TypeError\<close>, which is what a positive length leads to below, so that
  nothing is said to be composed that the program may refuse.
\<close>

fun lengthPositive :: "jsval \<Rightarrow> exn + bool" where
  "lengthPositive JUndefined = Inr False"
| "lengthPositive JNull = Inr False"
| "lengthPositive (JBool b) = Inr b"
| "lengthPositive (JNum s) = Inr (s \<noteq> ''0'' \<and> s \<noteq> ''NaN'' \<and> take 1 s \<noteq> ''-'')"
| "lengthPositive v = Inl TypeError"

text \<open>
  \<open>if (section && section.length > 0) { prompt += header; shown.forEach(line) }\<close>, where
  \<open>shown\<close> is the section or a slice of it. The helper is called with \<open>{}\<close> or with a
  result of \<open>searchRelevantData\<close>, where these sections are arrays. A section that is
  \<open>null\<close>, \<open>undefined\<close>, a boolean, a number or the empty string counts as false or has
  no \<open>length\<close>, and nothing is appended. A string that is not empty has a positive
  length and no \<open>forEach\<close>, and an object has neither \<open>slice\<close> nor \<open>forEach\<close>: with a
  positive own \<open>length\<close> the call throws a \<open>TypeError\<close>.
\<close>

definition listBlock ::
  "string \<Rightarrow> (jsval list \<Rightarrow> jsval list) \<Rightarrow> (jsval \<Rightarrow> exn + string) \<Rightarrow> jsval \<Rightarrow> exn + string" where
  "listBlock header shown line v =
     (case v of
        JArr xs \<Rightarrow> if length xs > 0 then catE (Inr header # map line (shown xs)) else Inr []
      | JStr s \<Rightarrow> if s \<noteq> [] then Inl TypeError else Inr []
      | JObj kvs \<Rightarrow>
          bindE (lengthPositive (own kvs ''length'')) (\<lambda>positive.
          if positive then Inl TypeError else Inr [])
      | _ \<Rightarrow> Inr [])"

definition preferencesBlock :: "jsval \<Rightarrow> exn + string" where
  "preferencesBlock pr =
     (if truthy pr
      then catE [Inr ''\<newline>Preferences & Interests:\<newline>'',
                 optJoined pr ''interests'' ''- Interests: '' ''\<newline>'',
                 optJoined pr ''goals'' ''- Goals: '' ''\<newline>'',
                 optField pr ''workStyle'' ''- Work Style: '' ''\<newline>'']
      else Inr [])"

definition personalBlock :: "(string \<times> jsval) list \<Rightarrow> exn + string" where
  "personalBlock personalContext =
     (if length personalContext > 0
      then catE [Inr ''PERSONAL INFORMATION ABOUT THE PERSON:\<newline>'',
                 biographyBlock (own personalContext ''biography''),
                 listBlock ''\<newline>Skills:\<newline>'' (\<lambda>xs. xs) skillLine (own personalContext ''skills''),
                 listBlock ''\<newline>Recent Projects:\<newline>'' (take 5) projectLine
                   (own personalContext ''projects''),
                 listBlock ''\<newline>Work Experience:\<newline>'' (take 3) experienceLine
                   (own personalContext ''experience''),
                 preferencesBlock (own personalContext ''preferences'')]
      else Inr [])"

section \<open>Context window\<close>

datatype role = User | Assistant

definition role_name :: "role \<Rightarrow> string" where
  "role_name r = (case r of User \<Rightarrow> ''user'' | Assistant \<Rightarrow> ''assistant'')"

record turn =
  role :: role
  content :: string

text \<open>\<open>xs.slice(-n)\<close>\<close>

definition slice_last :: "nat \<Rightarrow> 'a list \<Rightarrow> 'a list" where
  "slice_last n xs = drop (length xs - n) xs"

definition historyLine :: "turn \<Rightarrow> string" where
  "historyLine msg = role_name (role msg) @ '': '' @ content msg @ ''\<newline>''"

definition historyBlock :: "turn list \<Rightarrow> string" where
  "historyBlock conversationHistory =
     (if length conversationHistory > 0
      then ''\<newline>RECENT CONVERSATION HISTORY:\<newline>''
           @ concat (map historyLine (slice_last 4 conversationHistory))
      else [])"

definition questionBlock :: "string \<Rightarrow> string" where
  "questionBlock userMessage =
     ''\<newline>USER QUESTION: '' @ userMessage
   @ ''\<newline>\<newline>Your response should be helpful and based on the personal information provided above. If the question is about the person and you have relevant information, provide specific details. If you don't have the information, say so politely.''"

definition createPersonalizedPrompt ::
  "string \<Rightarrow> (string \<times> jsval) list \<Rightarrow> turn list \<Rightarrow> exn + string" where
  "createPersonalizedPrompt userMessage personalContext conversationHistory =
     bindE (personalBlock personalContext) (\<lambda>personal.
     Inr (preamble @ personal @ historyBlock conversationHistory @ questionBlock userMessage))"

text \<open>
  \<open>chatContexts\<close> is a \<open>Map\<close> from session identifiers to arrays. The arrays are shared and
  mutated in place, so they live in a store: \<open>heap s a\<close> is the content of the array at
  address \<open>a\<close>, and \<open>next_addr s\<close> the first address not yet allocated.
\<close>

record chat_state =
  heap :: "nat \<Rightarrow> turn list"
  next_addr :: nat
  chatContexts :: "string \<rightharpoonup> nat"

definition alloc :: "turn list \<Rightarrow> chat_state \<Rightarrow> nat \<times> chat_state" where
  "alloc xs s =
     (next_addr s, s\<lparr>heap := (heap s)(next_addr s := xs), next_addr := Suc (next_addr s)\<rparr>)"

definition updateChatContext :: "string \<Rightarrow> string \<Rightarrow> string \<Rightarrow> chat_state \<Rightarrow> chat_state" where
  "updateChatContext sessionId userMessage aiResponse s =
     (let s1 = (case chatContexts s sessionId of
                  None \<Rightarrow> (let a = alloc [] s
                           in (snd a)\<lparr>chatContexts := (chatContexts (snd a))(sessionId \<mapsto> fst a)\<rparr>)
                | Some c \<Rightarrow> s)
      in case chatContexts s1 sessionId of
           None \<Rightarrow> s1
         | Some ctx \<Rightarrow>
             (let s2 = s1\<lparr>heap := (heap s1)(ctx := heap s1 ctx
                            @ [\<lparr>role = User, content = userMessage\<rparr>,
                               \<lparr>role = Assistant, content = aiResponse\<rparr>])\<rparr>
              in if length (heap s2 ctx) > 10
                 then (let a = alloc (slice_last 10 (heap s2 ctx)) s2
                       in (snd a)\<lparr>chatContexts := (chatContexts (snd a))(sessionId \<mapsto> fst a)\<rparr>)
                 else s2))"

text \<open>\<open>chatContexts.get(sessionId) || []\<close>: the stored array itself, or a new empty one.\<close>

definition getOrEmpty :: "string \<Rightarrow> chat_state \<Rightarrow> nat \<times> chat_state" where
  "getOrEmpty sessionId s =
     (case chatContexts s sessionId of None \<Rightarrow> alloc [] s | Some c \<Rightarrow> (c, s))"

text \<open>The turns of a session as the \<open>get\<close> action of \<open>POST /context\<close> returns them.\<close>

definition getContext :: "string \<Rightarrow> chat_state \<Rightarrow> turn list" where
  "getContext sessionId s = heap (snd (getOrEmpty sessionId s)) (fst (getOrEmpty sessionId s))"

definition clearContext :: "string \<Rightarrow> chat_state \<Rightarrow> chat_state" where
  "clearContext sessionId s = s\<lparr>chatContexts := (chatContexts s)(sessionId := None)\<rparr>"

section \<open>Chat handler\<close>

text \<open>
  \<open>POST /api/chat\<close>. The request body has the three fields the handler reads, each of
  which may be absent; the response is a status and a JSON object. The language model is a
  parameter: \<open>generate prompt\<close> is the text it returns, or the exception it throws. The
  handler runs with \<open>NODE_ENV\<close> other than \<open>development\<close>, so an error response has no
  \<open>details\<close>. The message of a \<open>TypeError\<close> contains none of the phrases the handler
  looks for.
\<close>

record request =
  message :: "string option"
  sessionId :: "string option"
  includePersonalContext :: "bool option"

record world =
  dataFile :: datafile
  chat :: chat_state

type_synonym response = "nat \<times> (string \<times> jsval) list"

definition demoResponse :: "string \<Rightarrow> string" where
  "demoResponse msg =
     ''Hello! I'm your personalized AI assistant. You said: \"'' @ msg @ ''\". \<newline>''
   @ ''        \<newline>''
   @ ''To enable full AI capabilities with personalized responses, please:\<newline>''
   @ ''1. Get a free API key from Google AI Studio (https://makersuite.google.com/app/apikey)\<newline>''
   @ ''2. Add GEMINI_API_KEY=your_api_key_here to your .env file\<newline>''
   @ ''3. Optionally add PERSONAL_DATA_API_KEY=your_secure_key for data protection\<newline>''
   @ ''4. Restart the server\<newline>''
   @ ''\<newline>''
   @ ''You can still use the personal data management API to add your information!''"

definition errorResponse :: "exn \<Rightarrow> response" where
  "errorResponse e =
     (case e of
        TypeError \<Rightarrow>
          (500, [(''error'', JStr ''Internal Server Error''),
                 (''message'', JStr ''Failed to get AI response'')])
      | Error m \<Rightarrow>
          if includes_str m ''API key''
          then (401, [(''error'', JStr ''Authentication Error''),
                      (''message'', JStr ''Invalid or missing Gemini API key'')])
          else if includes_str m ''quota'' \<or> includes_str m ''rate limit''
          then (429, [(''error'', JStr ''Rate Limit Exceeded''),
                      (''message'', JStr ''Gemini API rate limit exceeded. Please try again later.'')])
          else (500, [(''error'', JStr ''Internal Server Error''),
                      (''message'', JStr ''Failed to get AI response'')]))"

definition chatHandler ::
  "string option \<Rightarrow> (string \<Rightarrow> exn + string) \<Rightarrow> request \<Rightarrow> world \<Rightarrow> response \<times> world" where
  "chatHandler GEMINI_API_KEY generate req w =
     (let msg = (case message req of None \<Rightarrow> [] | Some m \<Rightarrow> m);
          sid = (case sessionId req of None \<Rightarrow> ''default'' | Some i \<Rightarrow> i);
          withContext = (case includePersonalContext req of None \<Rightarrow> True | Some b \<Rightarrow> b)
      in if msg = []
         then ((400, [(''error'', JStr ''Bad Request''), (''message'', JStr ''Message is required'')]), w)
         else if GEMINI_API_KEY = None \<or> GEMINI_API_KEY = Some [] \<or> GEMINI_API_KEY = Some ''demo-key''
         then ((200, [(''response'', JStr (demoResponse msg)),
                      (''isDemo'', JBool True),
                      (''personalDataAvailable'', JBool False)]), w)
         else
           (let personalContext = (if withContext then searchRelevantData msg (dataFile w) else []);
                personalDataAvailable = (withContext \<and> length personalContext > 0);
                h = getOrEmpty sid (chat w);
                conversationHistory = fst h;
                s1 = snd h
            in case bindE (createPersonalizedPrompt msg personalContext (heap s1 conversationHistory))
                          generate of
                 Inl e \<Rightarrow> (errorResponse e, w\<lparr>chat := s1\<rparr>)
               | Inr text \<Rightarrow>
                   (let s2 = updateChatContext sid msg text s1
                    in ((200, [(''response'', JStr text),
                               (''sessionId'', JStr sid),
                               (''personalDataUsed'', JBool personalDataAvailable),
                               (''contextLength'', JNum (show_nat (length (heap s2 conversationHistory)))),
                               (''isDemo'', JBool False)]),
                        w\<lparr>chat := s2\<rparr>))))"

section \<open>Constraints of the profile document\<close>

text \<open>
  What the data model of the specification asks of a profile document: for every field its
  type, for an enumerated field its allowed values, and whether the field is required
  (starred in the data model). The table below is written out from the data model, section
  by section; where the data model names no type for a field, the type is the one of the
  schema, and the document itself may carry an \<open>id\<close>, as in the schema. The table is kept
  apart from \<open>personalDataSchema\<close> and compared with it in the proofs.
\<close>

datatype constraint =
    Text
  | TextIn "string list"
  | Uri
  | Number
  | Moment
  | Flag
  | Sequence constraint
  | Fields "fieldspec list"
and fieldspec = FieldSpec string presence constraint

definition biographyFields :: constraint where
  "biographyFields = Fields
     [FieldSpec ''name'' Required Text,
      FieldSpec ''title'' Required Text,
      FieldSpec ''description'' Required Text,
      FieldSpec ''location'' Optional Text,
      FieldSpec ''age'' Optional Number,
      FieldSpec ''background'' Optional Text]"

definition skillFields :: constraint where
  "skillFields = Fields
     [FieldSpec ''id'' Optional Text,
      FieldSpec ''name'' Required Text,
      FieldSpec ''category'' Required Text,
      FieldSpec ''proficiency'' Required
        (TextIn [''beginner'', ''intermediate'', ''advanced'', ''expert'']),
      FieldSpec ''yearsOfExperience'' Optional Number,
      FieldSpec ''description'' Optional Text]"

definition projectFields :: constraint where
  "projectFields = Fields
     [FieldSpec ''id'' Optional Text,
      FieldSpec ''name'' Required Text,
      FieldSpec ''description'' Required Text,
      FieldSpec ''technologies'' Optional (Sequence Text),
      FieldSpec ''status'' Required
        (TextIn [''completed'', ''in-progress'', ''planned'', ''archived'']),
      FieldSpec ''startDate'' Optional Moment,
      FieldSpec ''endDate'' Optional Moment,
      FieldSpec ''repositoryUrl'' Optional Uri,
      FieldSpec ''demoUrl'' Optional Uri,
      FieldSpec ''role'' Optional Text,
      FieldSpec ''achievements'' Optional (Sequence Text)]"

definition preferencesFields :: constraint where
  "preferencesFields = Fields
     [FieldSpec ''workStyle'' Optional Text,
      FieldSpec ''interests'' Optional (Sequence Text),
      FieldSpec ''goals'' Optional (Sequence Text),
      FieldSpec ''values'' Optional (Sequence Text),
      FieldSpec ''communicationStyle'' Optional Text,
      FieldSpec ''preferredTechnologies'' Optional (Sequence Text)]"

definition socialLinkFields :: constraint where
  "socialLinkFields = Fields
     [FieldSpec ''id'' Optional Text,
      FieldSpec ''platform'' Required Text,
      FieldSpec ''url'' Required Uri,
      FieldSpec ''username'' Optional Text,
      FieldSpec ''isPublic'' Optional Flag]"

definition experienceFields :: constraint where
  "experienceFields = Fields
     [FieldSpec ''id'' Optional Text,
      FieldSpec ''company'' Required Text,
      FieldSpec ''position'' Required Text,
      FieldSpec ''startDate'' Required Moment,
      FieldSpec ''endDate'' Optional Moment,
      FieldSpec ''description'' Optional Text,
      FieldSpec ''achievements'' Optional (Sequence Text),
      FieldSpec ''technologies'' Optional (Sequence Text),
      FieldSpec ''isCurrent'' Optional Flag]"

definition educationFields :: constraint where
  "educationFields = Fields
     [FieldSpec ''id'' Optional Text,
      FieldSpec ''institution'' Required Text,
      FieldSpec ''degree'' Required Text,
      FieldSpec ''field'' Required Text,
      FieldSpec ''startDate'' Optional Moment,
      FieldSpec ''endDate'' Optional Moment,
      FieldSpec ''gpa'' Optional Number,
      FieldSpec ''achievements'' Optional (Sequence Text)]"

definition metadataFields :: constraint where
  "metadataFields = Fields
     [FieldSpec ''createdAt'' Optional Moment,
      FieldSpec ''updatedAt'' Optional Moment,
      FieldSpec ''version'' Optional Text]"

definition profileConstraints :: constraint where
  "profileConstraints = Fields
     [FieldSpec ''id'' Optional Text,
      FieldSpec ''biography'' Optional biographyFields,
      FieldSpec ''skills'' Optional (Sequence skillFields),
      FieldSpec ''projects'' Optional (Sequence projectFields),
      FieldSpec ''preferences'' Optional preferencesFields,
      FieldSpec ''socialLinks'' Optional (Sequence socialLinkFields),
      FieldSpec ''experience'' Optional (Sequence experienceFields),
      FieldSpec ''education'' Optional (Sequence educationFields),
      FieldSpec ''metadata'' Optional metadataFields]"

text \<open>
  A value is of the type asked for, its own parts aside. Text may not be empty. What counts
  as a number, a date or a URI is decided by the same three parameters as in the validator.
  A flag is a boolean, or the text \<open>true\<close> or \<open>false\<close> in any letter case, which the
  validator converts.
\<close>

fun accepts :: "joi_env \<Rightarrow> constraint \<Rightarrow> jsval \<Rightarrow> bool" where
  "accepts env Text v = (case v of JStr s \<Rightarrow> s \<noteq> [] | _ \<Rightarrow> False)"
| "accepts env (TextIn vs) v = (case v of JStr s \<Rightarrow> s \<in> set vs | _ \<Rightarrow> False)"
| "accepts env Uri v = (case v of JStr s \<Rightarrow> s \<noteq> [] \<and> joi_uri env s | _ \<Rightarrow> False)"
| "accepts env Number v = (case joi_number env v of Inl what \<Rightarrow> False | Inr n \<Rightarrow> True)"
| "accepts env Moment v = (joi_date env v \<noteq> None)"
| "accepts env Flag v =
     (case v of
        JBool b \<Rightarrow> True
      | JStr s \<Rightarrow> toLowerCase s = ''true'' \<or> toLowerCase s = ''false''
      | _ \<Rightarrow> False)"
| "accepts env (Sequence c) v = (case v of JArr xs \<Rightarrow> True | _ \<Rightarrow> False)"
| "accepts env (Fields fs) v = (case v of JObj kvs \<Rightarrow> True | _ \<Rightarrow> False)"

definition field_name :: "fieldspec \<Rightarrow> string" where
  "field_name f = (case f of FieldSpec k need c \<Rightarrow> k)"

text \<open>
  \<open>offends env c v q\<close>: in the value \<open>v\<close>, constrained by \<open>c\<close>, the field at the path \<open>q\<close>
  violates its constraint. At the end of the path the value is not of the type asked for.
  Under a key, the field is required and missing, or it is present and offends further
  down, or the key is not a field of the object at all. Under an index, the element is
  \<open>undefined\<close> or offends further down.
\<close>

fun offends :: "joi_env \<Rightarrow> constraint \<Rightarrow> jsval \<Rightarrow> seg list \<Rightarrow> bool"
and offendsField ::
  "joi_env \<Rightarrow> (string \<times> jsval) list \<Rightarrow> fieldspec \<Rightarrow> string \<Rightarrow> seg list \<Rightarrow> bool"
where
  "offends env c v [] = (\<not> accepts env c v)"
| "offends env c v (Key k # q) =
     (case c of
        Fields fs \<Rightarrow>
          (case v of
             JObj kvs \<Rightarrow>
               if k \<in> set (map field_name fs)
               then list_ex (\<lambda>f. offendsField env kvs f k q) fs
               else q = [] \<and> k \<in> set (map fst kvs)
           | _ \<Rightarrow> False)
      | _ \<Rightarrow> False)"
| "offends env c v (Idx i # q) =
     (case c of
        Sequence item \<Rightarrow>
          (case v of
             JArr xs \<Rightarrow>
               i < length xs
               \<and> (if xs ! i = JUndefined then q = [] else offends env item (xs ! i) q)
           | _ \<Rightarrow> False)
      | _ \<Rightarrow> False)"
| "offendsField env kvs (FieldSpec k' need c) k q =
     (k' = k
      \<and> (if own kvs k = JUndefined then q = [] \<and> need = Required
         else offends env c (own kvs k) q))"

text \<open>The constraints a schema states: the schema without its defaults.\<close>

fun constraintsOf :: "schema \<Rightarrow> constraint"
and fieldConstraint :: "keyspec \<Rightarrow> fieldspec"
where
  "constraintsOf JoiString = Text"
| "constraintsOf (JoiStringValid vs) = TextIn vs"
| "constraintsOf JoiStringUri = Uri"
| "constraintsOf JoiNumber = Number"
| "constraintsOf JoiDate = Moment"
| "constraintsOf JoiBoolean = Flag"
| "constraintsOf (JoiArray item) = Sequence (constraintsOf item)"
| "constraintsOf (JoiObject specs) = Fields (map fieldConstraint specs)"
| "fieldConstraint (KeySpec k pr d s) = FieldSpec k pr (constraintsOf s)"

section \<open>The prompt as the specification describes it\<close>

text \<open>
  The text of a value, of an array element and of an array joined with a separator, where
  the conversions of the composer do not throw; and \<open>x.k\<close> on a value that is neither
  \<open>undefined\<close> nor \<open>null\<close>.
\<close>

fun textOf :: "jsval \<Rightarrow> string" where
  "textOf JUndefined = ''undefined''"
| "textOf JNull = ''null''"
| "textOf (JBool b) = (if b then ''true'' else ''false'')"
| "textOf (JNum s) = s"
| "textOf (JStr s) = s"
| "textOf (JArr xs) =
     join '','' (map (\<lambda>x. if x = JUndefined \<or> x = JNull then [] else textOf x) xs)"
| "textOf (JObj kvs) = ''[object Object]''"

definition elementText :: "jsval \<Rightarrow> string" where
  "elementText x = (if x = JUndefined \<or> x = JNull then [] else textOf x)"

definition listText :: "string \<Rightarrow> jsval \<Rightarrow> string" where
  "listText sep v = (case v of JArr xs \<Rightarrow> join sep (map elementText xs) | _ \<Rightarrow> [])"

definition propOf :: "jsval \<Rightarrow> string \<Rightarrow> jsval" where
  "propOf x k = (case x of JObj kvs \<Rightarrow> own kvs k | _ \<Rightarrow> JUndefined)"

text \<open>An optional part: left out when the value is absent or otherwise counts as false.\<close>

definition labelled :: "string \<Rightarrow> jsval \<Rightarrow> string \<Rightarrow> string" where
  "labelled pre v post = (if truthy v then pre @ textOf v @ post else [])"

definition labelledList :: "string \<Rightarrow> jsval \<Rightarrow> string \<Rightarrow> string" where
  "labelledList pre v post = (if truthy v then pre @ listText '', '' v @ post else [])"

text \<open>
  The sub-blocks of the personal information block. Each is left out entirely when its
  data is absent; a list sub-block is its header and one line for each entry rendered.
\<close>

definition renderBiography :: "jsval \<Rightarrow> string" where
  "renderBiography b =
     (if truthy b
      then ''\<newline>Basic Info:\<newline>''
           @ ''- Name: '' @ textOf (propOf b ''name'') @ ''\<newline>''
           @ ''- Title: '' @ textOf (propOf b ''title'') @ ''\<newline>''
           @ ''- Description: '' @ textOf (propOf b ''description'') @ ''\<newline>''
           @ labelled ''- Location: '' (propOf b ''location'') ''\<newline>''
           @ labelled ''- Background: '' (propOf b ''background'') ''\<newline>''
      else [])"

definition renderSkill :: "jsval \<Rightarrow> string" where
  "renderSkill skill =
     ''- '' @ textOf (propOf skill ''name'')
     @ '' ('' @ textOf (propOf skill ''proficiency'')
     @ '' level, '' @ textOf (propOf skill ''category'') @ '')''
     @ labelled '' - '' (propOf skill ''yearsOfExperience'') '' years experience''
     @ labelled '' - '' (propOf skill ''description'') []
     @ ''\<newline>''"

definition renderProject :: "jsval \<Rightarrow> string" where
  "renderProject project =
     ''- '' @ textOf (propOf project ''name'')
     @ '': '' @ textOf (propOf project ''description'')
     @ labelledList '' (Technologies: '' (propOf project ''technologies'') '')''
     @ '' [Status: '' @ textOf (propOf project ''status'') @ '']\<newline>''"

definition renderJob :: "jsval \<Rightarrow> string" where
  "renderJob job =
     ''- '' @ textOf (propOf job ''position'')
     @ '' at '' @ textOf (propOf job ''company'')
     @ (if truthy (propOf job ''isCurrent'') then '' (Current)'' else [])
     @ labelled '': '' (propOf job ''description'') []
     @ ''\<newline>''"

definition renderPreferences :: "jsval \<Rightarrow> string" where
  "renderPreferences pr =
     (if truthy pr
      then ''\<newline>Preferences & Interests:\<newline>''
           @ labelledList ''- Interests: '' (propOf pr ''interests'') ''\<newline>''
           @ labelledList ''- Goals: '' (propOf pr ''goals'') ''\<newline>''
           @ labelled ''- Work Style: '' (propOf pr ''workStyle'') ''\<newline>''
      else [])"

definition entriesOf :: "jsval \<Rightarrow> jsval list" where
  "entriesOf v = (case v of JArr xs \<Rightarrow> xs | _ \<Rightarrow> [])"

definition renderSection :: "string \<Rightarrow> string list \<Rightarrow> string" where
  "renderSection title entryLines = (if entryLines = [] then [] else title @ concat entryLines)"

text \<open>
  The personal information block: biography, skills, the first five projects, the first
  three jobs and the preferences, in this order; nothing at all for \<open>{}\<close>.
\<close>

definition renderPersonal :: "(string \<times> jsval) list \<Rightarrow> string" where
  "renderPersonal relevantData =
     (if relevantData = [] then []
      else ''PERSONAL INFORMATION ABOUT THE PERSON:\<newline>''
           @ renderBiography (own relevantData ''biography'')
           @ renderSection ''\<newline>Skills:\<newline>''
               (map renderSkill (entriesOf (own relevantData ''skills'')))
           @ renderSection ''\<newline>Recent Projects:\<newline>''
               (map renderProject (take 5 (entriesOf (own relevantData ''projects''))))
           @ renderSection ''\<newline>Work Experience:\<newline>''
               (map renderJob (take 3 (entriesOf (own relevantData ''experience''))))
           @ renderPreferences (own relevantData ''preferences''))"

text \<open>The recent conversation block: the last four turns, nothing for an empty history.\<close>

definition renderHistory :: "turn list \<Rightarrow> string" where
  "renderHistory history =
     (if history = [] then []
      else ''\<newline>RECENT CONVERSATION HISTORY:\<newline>''
           @ concat (map historyLine (slice_last 4 history)))"

definition renderPrompt :: "string \<Rightarrow> (string \<times> jsval) list \<Rightarrow> turn list \<Rightarrow> string" where
  "renderPrompt userMessage relevantData history =
     preamble @ renderPersonal relevantData @ renderHistory history @ questionBlock userMessage"

text \<open>
  The relevant-data objects on which the composer does not throw. A value can be put into
  the text unless it is, or is an array that holds, an object with an own property
  \<open>toString\<close>. A value can be joined when it counts as false, and is then left out, or is
  an array of values that can be put into the text. An entry of a list is rendered when it
  is neither \<open>undefined\<close> nor \<open>null\<close> and the fields shown can be put into the text or
  joined. Of a list section the entries shown must be rendered; a section that is not an
  array must be one for which nothing is appended.
\<close>

fun printable :: "jsval \<Rightarrow> bool" where
  "printable (JObj kvs) = (''toString'' \<notin> set (map fst kvs))"
| "printable (JArr xs) = list_all printable xs"
| "printable v = True"

definition joinable :: "jsval \<Rightarrow> bool" where
  "joinable v = (\<not> truthy v \<or> (case v of JArr xs \<Rightarrow> list_all printable xs | _ \<Rightarrow> False))"

definition present :: "jsval \<Rightarrow> bool" where
  "present x = (x \<noteq> JUndefined \<and> x \<noteq> JNull)"

definition skillRenders :: "jsval \<Rightarrow> bool" where
  "skillRenders skill =
     (present skill
      \<and> list_all (\<lambda>k. printable (propOf skill k))
          [''name'', ''proficiency'', ''category'', ''yearsOfExperience'', ''description''])"

definition projectRenders :: "jsval \<Rightarrow> bool" where
  "projectRenders project =
     (present project
      \<and> list_all (\<lambda>k. printable (propOf project k)) [''name'', ''description'', ''status'']
      \<and> joinable (propOf project ''technologies''))"

definition jobRenders :: "jsval \<Rightarrow> bool" where
  "jobRenders job =
     (present job
      \<and> list_all (\<lambda>k. printable (propOf job k)) [''position'', ''company'', ''description''])"

definition biographyRenders :: "jsval \<Rightarrow> bool" where
  "biographyRenders b =
     (\<not> truthy b
      \<or> list_all (\<lambda>k. printable (propOf b k))
          [''name'', ''title'', ''description'', ''location'', ''background''])"

definition preferencesRender :: "jsval \<Rightarrow> bool" where
  "preferencesRender pr =
     (\<not> truthy pr
      \<or> (joinable (propOf pr ''interests'') \<and> joinable (propOf pr ''goals'')
         \<and> printable (propOf pr ''workStyle'')))"

definition sectionRenders ::
  "(jsval \<Rightarrow> bool) \<Rightarrow> (jsval list \<Rightarrow> jsval list) \<Rightarrow> jsval \<Rightarrow> bool" where
  "sectionRenders renders cap v =
     (case v of
        JArr xs \<Rightarrow> list_all renders (cap xs)
      | JStr s \<Rightarrow> s = []
      | JObj kvs \<Rightarrow> lengthPositive (own kvs ''length'') = Inr False
      | _ \<Rightarrow> True)"

definition composable :: "(string \<times> jsval) list \<Rightarrow> bool" where
  "composable relevantData =
     (relevantData = []
      \<or> (biographyRenders (own relevantData ''biography'')
         \<and> sectionRenders skillRenders (\<lambda>xs. xs) (own relevantData ''skills'')
         \<and> sectionRenders projectRenders (take 5) (own relevantData ''projects'')
         \<and> sectionRenders jobRenders (take 3) (own relevantData ''experience'')
         \<and> preferencesRender (own relevantData ''preferences'')))"

section \<open>Predicates used in the statements\<close>

text \<open>
  A list section in which every entry is an object with an \<open>id\<close> that counts as true, or
  a section that is absent (or otherwise counts as false), so that \<open>updateData\<close> assigns
  no identifier in it.
\<close>

definition has_ids :: "jsval \<Rightarrow> bool" where
  "has_ids v =
     (case v of
        JArr xs \<Rightarrow> list_all (\<lambda>x. case x of JObj e \<Rightarrow> truthy (own e ''id'') | _ \<Rightarrow> False) xs
      | _ \<Rightarrow> \<not> truthy v)"

text \<open>
  An object as it comes back from the data file: no \<open>undefined\<close> property, and every
  property value unchanged by the JSON round trip.
\<close>

definition cleanObj :: "(string \<times> jsval) list \<Rightarrow> bool" where
  "cleanObj d = list_all (\<lambda>kv. snd kv \<noteq> JUndefined \<and> toJSON (snd kv) = snd kv) d"

section \<open>Example data\<close>

text \<open>Three moments, as \<open>toISOString()\<close> writes them.\<close>

definition day0 :: string where
  "day0 = ''2024-01-01T00:00:00.000Z''"

definition day1 :: string where
  "day1 = ''2024-01-02T00:00:00.000Z''"

definition day2 :: string where
  "day2 = ''2024-01-03T00:00:00.000Z''"

text \<open>
  A validation environment for the examples, which decides less than the library does. A
  number is accepted as it is, and nothing else as a number. A date is accepted when it is
  a string in the form \<open>toISOString()\<close> writes, and is kept as written; the library also
  accepts dates in other forms, which the examples do not use. Every URI is accepted; the
  ones in the examples are well formed. The clock of \<open>Date.now\<close> reads 1704240000000, the
  third of the moments above.
\<close>

definition isoLike :: "string \<Rightarrow> bool" where
  "isoLike d = (length d = 24 \<and> d ! 4 = CHR ''-'' \<and> d ! 7 = CHR ''-'' \<and> d ! 10 = CHR ''T''
                \<and> d ! 13 = CHR '':'' \<and> d ! 16 = CHR '':'' \<and> d ! 19 = CHR ''.''
                \<and> d ! 23 = CHR ''Z'')"

definition exampleEnv :: joi_env where
  "exampleEnv =
     \<lparr> joi_number = (\<lambda>v. case v of JNum n \<Rightarrow> Inr n | _ \<Rightarrow> Inl ''must be a number''),
       joi_date = (\<lambda>v. case v of JStr d \<Rightarrow> if isoLike d then Some d else None | _ \<Rightarrow> None),
       joi_uri = (\<lambda>u. True),
       date_now = (\<lambda>p. ''1704240000000'') \<rparr>"

definition exampleUuid :: "nat \<Rightarrow> string" where
  "exampleUuid n = ''uuid-'' @ show_nat n"

definition annBiography :: jsval where
  "annBiography = JObj [(''name'', JStr ''Ann''), (''title'', JStr ''Developer''),
                        (''description'', JStr ''Builds web applications'')]"

definition reactSkill :: jsval where
  "reactSkill = JObj [(''id'', JStr ''s1''), (''name'', JStr ''React''),
                      (''category'', JStr ''programming''), (''proficiency'', JStr ''expert'')]"

definition annPreferences :: jsval where
  "annPreferences = JObj [(''interests'', JArr [JStr ''chess''])]"

definition annProfile :: "(string \<times> jsval) list" where
  "annProfile = [(''biography'', annBiography), (''skills'', JArr [reactSkill]),
                 (''projects'', JArr []), (''preferences'', annPreferences)]"

definition bogusSkill :: jsval where
  "bogusSkill = JObj [(''name'', JStr ''X''), (''category'', JStr ''c''),
                      (''proficiency'', JStr ''bogus'')]"

definition emptyChat :: chat_state where
  "emptyChat = \<lparr>heap = (\<lambda>a. []), next_addr = 0, chatContexts = Map.empty\<rparr>"

text \<open>The state after start-up: the initial data file and no conversation.\<close>

definition freshWorld :: world where
  "freshWorld = \<lparr>dataFile = initializeDataFile day0 None, chat = emptyChat\<rparr>"

definition answerHi :: "string \<Rightarrow> exn + string" where
  "answerHi prompt = Inr ''Hi''"

definition chatRequest :: "string \<Rightarrow> request" where
  "chatRequest m = \<lparr>message = Some m, sessionId = Some ''s1'', includePersonalContext = Some True\<rparr>"

text \<open>The state after one exchange in session \<open>s1\<close> with a configured model.\<close>

definition worldAfterHi :: world where
  "worldAfterHi = snd (chatHandler (Some ''test-key'') answerHi (chatRequest ''hi'') freshWorld)"

text \<open>The two turns of an exchange, and a sequence of exchanges appended to one session.\<close>

definition exchange :: "string \<times> string \<Rightarrow> turn list" where
  "exchange e = [\<lparr>role = User, content = fst e\<rparr>, \<lparr>role = Assistant, content = snd e\<rparr>]"

definition appendAll :: "string \<Rightarrow> (string \<times> string) list \<Rightarrow> chat_state \<Rightarrow> chat_state" where
  "appendAll sid es s = fold (\<lambda>e. updateChatContext sid (fst e) (snd e)) es s"

definition sixExchanges :: "(string \<times> string) list" where
  "sixExchanges = [(''q1'', ''a1''), (''q2'', ''a2''), (''q3'', ''a3''), (''q4'', ''a4''),
                   (''q5'', ''a5''), (''q6'', ''a6'')]"

text \<open>The state in which session \<open>s1\<close> has had five exchanges, and so holds ten turns.\<close>

definition worldAfterFive :: world where
  "worldAfterFive = freshWorld\<lparr>chat := appendAll ''s1'' (take 5 sixExchanges) emptyChat\<rparr>"

text \<open>
  The data file after \<open>updateData({})\<close> on a missing file, and a stored profile with
  identifiers and complete metadata.
\<close>

definition storedAfterEmptyWrite :: datafile where
  "storedAfterEmptyWrite = snd (updateData exampleEnv day1 exampleUuid (JObj []) None)"

definition annStored :: "(string \<times> jsval) list" where
  "annStored = annProfile @ [(''metadata'', JObj [(''createdAt'', JStr day0),
                                                  (''updatedAt'', JStr day1),
                                                  (''version'', JStr ''1.0.0'')])]"










text \<open>
  A skill without a name, and a social link whose \<open>isPublic\<close> is the text \<open>false\<close>.
\<close>

definition namelessSkill :: jsval where
  "namelessSkill = JObj [(''category'', JStr ''c''), (''proficiency'', JStr ''expert'')]"

definition quietLink :: jsval where
  "quietLink = JObj [(''platform'', JStr ''github''), (''url'', JStr ''https://github.com/ann''),
                     (''isPublic'', JStr ''false'')]"

section \<open>Properties of the relevance search\<close>

lemma bindE_Inr:
  assumes "bindE m f = Inr r"
  obtains x where "m = Inr x" and "f x = Inr r"
  using assms by (cases m) (auto simp: bindE_def)

lemma keys_put: "fst ` set (put kvs k v) = insert k (fst ` set kvs)"
  by (induction kvs k v rule: put.induct) auto

lemma own_put_same: "own (put kvs k v) k = v"
  by (induction kvs k v rule: put.induct) (auto simp: own_def)

lemma own_put_other: "k' \<noteq> k \<Longrightarrow> own (put kvs k v) k' = own kvs k'"
  by (induction kvs k v rule: put.induct) (auto simp: own_def)

lemma keys_addSection: "fst ` set (addSection k r acc) \<subseteq> insert k (fst ` set acc)"
  by (auto simp: addSection_def keys_put split: option.splits)

lemma searchBody_keys:
  assumes "searchBody query data = Inr r"
  shows "fst ` set r \<subseteq> {''biography'', ''skills'', ''projects'', ''experience'', ''preferences''}"
proof -
  from assms obtain b pr rs rp re bio where
    r: "r = (if truthy pr
             then put (addSection ''experience'' re (addSection ''projects'' rp
                    (addSection ''skills'' rs (if b then put [] ''biography'' bio else []))))
                  ''preferences'' pr
             else addSection ''experience'' re (addSection ''projects'' rp
                    (addSection ''skills'' rs (if b then put [] ''biography'' bio else []))))"
    unfolding searchBody_def Let_def by (elim bindE_Inr) auto
  have k1: "fst ` set (if b then put [] ''biography'' bio else []) \<subseteq> {''biography''}"
    by auto
  have k2: "fst ` set (addSection ''skills'' rs (if b then put [] ''biography'' bio else []))
              \<subseteq> {''biography'', ''skills''}"
    using keys_addSection [of "''skills''" rs "if b then put [] ''biography'' bio else []"] k1
    by blast
  have k3: "fst ` set (addSection ''projects'' rp
               (addSection ''skills'' rs (if b then put [] ''biography'' bio else [])))
              \<subseteq> {''biography'', ''skills'', ''projects''}"
    using keys_addSection [of "''projects''" rp] k2 by blast
  have k4: "fst ` set (addSection ''experience'' re (addSection ''projects'' rp
               (addSection ''skills'' rs (if b then put [] ''biography'' bio else []))))
              \<subseteq> {''biography'', ''skills'', ''projects'', ''experience''}"
    using keys_addSection [of "''experience''" re] k3 by blast
  show ?thesis
  proof (cases "truthy pr")
    case True
    then show ?thesis using k4 by (simp only: r if_True keys_put) blast
  next
    case False
    then show ?thesis using k4 by (simp only: r if_False) blast
  qed
qed

text \<open>
  C9 (search exclusion law): whatever the query and the data file, the object that
  \<open>searchRelevantData\<close> returns has no \<open>education\<close> and no \<open>socialLinks\<close> property.
\<close>

theorem search_excludes_education_and_socialLinks:
  "''education'' \<notin> fst ` set (searchRelevantData query f)
   \<and> ''socialLinks'' \<notin> fst ` set (searchRelevantData query f)"
proof (cases "searchBody query (getAllData f)")
  case (Inl e)
  then show ?thesis by (simp add: searchRelevantData_def)
next
  case (Inr r)
  from searchBody_keys [OF Inr]
  have "''education'' \<notin> fst ` set r" "''socialLinks'' \<notin> fst ` set r"
    by auto
  with Inr show ?thesis by (simp add: searchRelevantData_def)
qed

lemma filterE_kept:
  assumes "filterE p xs = Inr ys" and "y \<in> set ys"
  shows "p y = Inr True \<and> y \<in> set xs"
  using assms
proof (induction xs arbitrary: ys)
  case Nil
  then show ?case by simp
next
  case (Cons x xs)
  from Cons.prems(1) obtain b zs where b: "p x = Inr b" and zs: "filterE p xs = Inr zs"
    and ys: "ys = (if b then x # zs else zs)"
    by (auto elim!: bindE_Inr)
  show ?case
  proof (cases "y \<in> set zs")
    case True
    with Cons.IH [OF zs] show ?thesis by simp
  next
    case False
    with ys Cons.prems(2) have "b" "y = x" by (auto split: if_splits)
    with b show ?thesis by simp
  qed
qed

lemma filterSection_kept:
  assumes "filterSection terms v = Inr (Some ys)" and "y \<in> set ys"
  shows "matchesTerms terms y = Inr True"
proof (cases v)
  case (JArr xs)
  with assms(1) have "filterE (matchesTerms terms) xs = Inr ys"
    by (auto elim!: bindE_Inr)
  from filterE_kept [OF this assms(2)] show ?thesis by simp
qed (use assms(1) in auto)

lemma own_addSection:
  "own (addSection k r acc) k'
     = (if k' = k \<and> (\<exists>ys. r = Some ys \<and> ys \<noteq> []) then JArr (the r) else own acc k')"
  by (auto simp: addSection_def own_put_same own_put_other split: option.splits)

lemma own_Nil: "own [] k = JUndefined"
  by (simp add: own_def)

text \<open>
  What the search does guarantee: every entry of a list section it returns includes one of
  the terms of \<open>query.toLowerCase().split(' ')\<close>, the empty term among them.
\<close>

lemma search_list_entries_match:
  assumes r: "searchBody query data = Inr r"
    and k: "k \<in> {''skills'', ''projects'', ''experience''}"
    and ys: "own r k = JArr ys" and y: "y \<in> set ys"
  shows "matchesTerms (split CHR '' '' (toLowerCase query)) y = Inr True"
proof -
  let ?terms = "split CHR '' '' (toLowerCase query)"
  from r obtain b bio sk pj ex pr rs rp re where
    fs: "filterSection ?terms sk = Inr rs" "filterSection ?terms pj = Inr rp"
        "filterSection ?terms ex = Inr re"
    and res: "r = (if truthy pr
             then put (addSection ''experience'' re (addSection ''projects'' rp
                    (addSection ''skills'' rs (if b then put [] ''biography'' bio else []))))
                  ''preferences'' pr
             else addSection ''experience'' re (addSection ''projects'' rp
                    (addSection ''skills'' rs (if b then put [] ''biography'' bio else []))))"
    unfolding searchBody_def Let_def by (elim bindE_Inr) auto
  let ?bio = "if b then put [] ''biography'' bio else []"
  have bio: "own ?bio k' = JUndefined" if "k' \<noteq> ''biography''" for k'
    using that by (simp add: own_def)
  have pref: "own r k' = own (addSection ''experience'' re (addSection ''projects'' rp
                    (addSection ''skills'' rs ?bio))) k'" if "k' \<noteq> ''preferences''" for k'
    using that by (simp add: res own_put_other)
  from k consider "k = ''skills''" | "k = ''projects''" | "k = ''experience''" by auto
  then show ?thesis
  proof cases
    case 1
    with ys pref [of k] have "rs = Some ys"
      by (auto simp: own_addSection bio split: if_splits)
    with fs(1) y show ?thesis by (auto dest: filterSection_kept)
  next
    case 2
    with ys pref [of k] have "rp = Some ys"
      by (auto simp: own_addSection bio split: if_splits)
    with fs(2) y show ?thesis by (auto dest: filterSection_kept)
  next
    case 3
    with ys pref [of k] have "re = Some ys"
      by (auto simp: own_addSection bio split: if_splits)
    with fs(3) y show ?thesis by (auto dest: filterSection_kept)
  qed
qed


text \<open>
  C1 (search containment law) fails on the code. \<open>query.toLowerCase().split(' ')\<close> yields
  an empty term for the empty query and for every leading, trailing or doubled space, and
  every text includes the empty term. For the query \<open>python\<close> followed by a space, and for
  the empty query, the search returns the biography and the React skill of the example
  profile, although neither contains \<open>python\<close>.
\<close>

theorem search_returns_entries_without_any_token:
  "searchRelevantData ''python '' (Some annProfile)
     = [(''biography'', annBiography), (''skills'', JArr [reactSkill]),
        (''preferences'', annPreferences)]
   \<and> searchRelevantData [] (Some annProfile)
     = [(''biography'', annBiography), (''skills'', JArr [reactSkill]),
        (''preferences'', annPreferences)]
   \<and> matchesTerms [''python''] reactSkill = Inr False
   \<and> matchesTerms [''python''] annBiography = Inr False"
  by code_simp

section \<open>Properties of the profile store\<close>

text \<open>
  C4 (\<open>writeSection\<close> validates the section) fails on the code: \<open>updateSection\<close> never
  calls the validator. A skill whose proficiency is \<open>bogus\<close>, which \<open>updateData\<close>
  refuses, is stored by \<open>updateSection\<close> as it is.
\<close>

theorem updateSection_stores_invalid_section:
  "updateSection day1 ''skills'' (JArr [bogusSkill]) (writeJson (initialData day0))
     = (Inr (JArr [bogusSkill]),
        writeJson (put (put (initialData day0) ''skills'' (JArr [bogusSkill])) ''metadata''
          (JObj [(''createdAt'', JStr day0), (''updatedAt'', JStr day1),
                 (''version'', JStr ''1.0.0'')])))
   \<and> fst (updateData exampleEnv day1 exampleUuid (JObj [(''skills'', JArr [bogusSkill])])
            (writeJson (initialData day0)))
     = Inl (Error (''Validation error: \"skills[0].proficiency\" must be one of ''
                   @ ''[beginner, intermediate, advanced, expert]''))"
  by code_simp

lemma own_written:
  assumes "own kvs k = v" and "v \<noteq> JUndefined"
  shows "own (map (\<lambda>kv. (fst kv, toJSON (snd kv))) (filter (\<lambda>kv. snd kv \<noteq> JUndefined) kvs)) k
           = toJSON v"
  using assms by (induction kvs) (auto simp: own_def split: if_splits)

lemma writeJson_Some:
  "writeJson v = Some (map (\<lambda>kv. (fst kv, toJSON (snd kv))) (filter (\<lambda>kv. snd kv \<noteq> JUndefined) v))"
  by (simp add: writeJson_def)

text \<open>
  C10 (the version is constant) fails for the section write. \<open>updateSection\<close> stores the
  section it is given: \<open>updateSection('metadata', {version: '2.0'})\<close> on the initial data
  file leaves a stored document whose \<open>metadata.version\<close> is \<open>2.0\<close>.
\<close>

theorem updateSection_stores_another_version:
  "updateSection day1 ''metadata'' (JObj [(''version'', JStr ''2.0'')])
      (writeJson (initialData day0))
     = (Inr (JObj [(''version'', JStr ''2.0''), (''updatedAt'', JStr day1)]),
        writeJson (put (initialData day0) ''metadata''
          (JObj [(''version'', JStr ''2.0''), (''updatedAt'', JStr day1)])))"
  by code_simp

text \<open>
  C10, amended: after every successful \<open>updateData\<close>, the whole-document write, the stored
  document has a \<open>metadata\<close> object whose \<open>version\<close> is \<open>1.0.0\<close>, whatever the caller
  supplied.
\<close>

theorem updateData_sets_version:
  assumes "updateData env now uuid newData f = (Inr v, f')"
  shows "\<exists>doc m. f' = Some doc \<and> own doc ''metadata'' = JObj m \<and> own m ''version'' = JStr ''1.0.0''"
proof -
  from assms obtain v5 :: "(string \<times> jsval) list \<times> nat" where
    f': "f' = writeJson (put (fst v5) ''metadata''
             (JObj (put (put (spread (own (fst v5) ''metadata'')) ''updatedAt'' (JStr now))
                     ''version'' (JStr ''1.0.0''))))"
    by (auto simp: updateData_def Let_def split: sum.splits jsval.splits)
  let ?m = "put (put (spread (own (fst v5) ''metadata'')) ''updatedAt'' (JStr now))
              ''version'' (JStr ''1.0.0'')"
  let ?val = "put (fst v5) ''metadata'' (JObj ?m)"
  let ?doc = "map (\<lambda>kv. (fst kv, toJSON (snd kv))) (filter (\<lambda>kv. snd kv \<noteq> JUndefined) ?val)"
  let ?m' = "map (\<lambda>kv. (fst kv, toJSON (snd kv))) (filter (\<lambda>kv. snd kv \<noteq> JUndefined) ?m)"
  have 1: "f' = Some ?doc" by (simp add: f' writeJson_Some)
  have 2: "own ?doc ''metadata'' = toJSON (JObj ?m)"
    by (rule own_written) (simp_all add: own_put_same)
  have 3: "own ?m' ''version'' = toJSON (JStr ''1.0.0'')"
    by (rule own_written) (simp_all add: own_put_same)
  from 1 2 3 show ?thesis by simp
qed

theorem updateData_sets_version_witness:
  "updateData exampleEnv day2 exampleUuid
      (JObj [(''metadata'', JObj [(''version'', JStr ''9.9.9'')])]) None
     = (Inr (JObj [(''metadata'', JObj [(''version'', JStr ''1.0.0''),
                     (''createdAt'', JNum ''1704240000000''), (''updatedAt'', JStr day2)])]),
        Some [(''metadata'', JObj [(''version'', JStr ''1.0.0''),
                     (''createdAt'', JNum ''1704240000000''), (''updatedAt'', JStr day2)])])
   \<and> (\<exists>doc m. Some [(''metadata'', JObj [(''version'', JStr ''1.0.0''),
                     (''createdAt'', JNum ''1704240000000''), (''updatedAt'', JStr day2)])] = Some doc
         \<and> own doc ''metadata'' = JObj m \<and> own m ''version'' = JStr ''1.0.0'')"
proof -
  have e: "updateData exampleEnv day2 exampleUuid
      (JObj [(''metadata'', JObj [(''version'', JStr ''9.9.9'')])]) None
     = (Inr (JObj [(''metadata'', JObj [(''version'', JStr ''1.0.0''),
                     (''createdAt'', JNum ''1704240000000''), (''updatedAt'', JStr day2)])]),
        Some [(''metadata'', JObj [(''version'', JStr ''1.0.0''),
                     (''createdAt'', JNum ''1704240000000''), (''updatedAt'', JStr day2)])])"
    by code_simp
  from e updateData_sets_version [OF e] show ?thesis by simp
qed

lemma firstError_Inl: "firstError rs = Inl e \<Longrightarrow> Inl e \<in> set rs"
  by (induction rs rule: firstError.induct) (auto split: sum.splits)

lemma firstError_fails: "Inl e \<in> set rs \<Longrightarrow> \<exists>e'. firstError rs = Inl e'"
  by (induction rs rule: firstError.induct) (auto split: sum.splits)

lemma verr_quoted: "verr p what = Inl (q, m) \<Longrightarrow> prefix ([CHR 0x22] @ label q @ [CHR 0x22]) m"
  by (auto simp: verr_def)

lemma verr_path: "verr p what = Inl (q, m) \<Longrightarrow> q = p"
  by (simp add: verr_def)

lemma nth_in_zip_upt: "i < length xs \<Longrightarrow> (i, xs ! i) \<in> set (zip [0 ..< length xs] xs)"
  by (auto simp: in_set_zip intro!: exI [of _ i])

lemma array_error:
  assumes "validate env p (JoiArray item) (JArr xs) = Inl (q, m)"
  obtains i where "i < length xs"
    and "if xs ! i = JUndefined
         then verr (p @ [Idx i]) ''must not be a sparse array item'' = (Inl (q, m) :: verror + jsval)
         else validate env (p @ [Idx i]) item (xs ! i) = Inl (q, m)"
proof -
  from assms have "firstError (map (\<lambda>ix. if snd ix = JUndefined
                                       then verr (p @ [Idx (fst ix)]) ''must not be a sparse array item''
                                       else validate env (p @ [Idx (fst ix)]) item (snd ix))
                               (zip [0 ..< length xs] xs)) = Inl (q, m)"
    by (auto split: sum.splits)
  from firstError_Inl [OF this] obtain ix where ix: "ix \<in> set (zip [0 ..< length xs] xs)"
    and r: "(if snd ix = JUndefined
             then verr (p @ [Idx (fst ix)]) ''must not be a sparse array item''
             else validate env (p @ [Idx (fst ix)]) item (snd ix)) = Inl (q, m)"
    by auto
  from ix have "fst ix < length xs" "xs ! fst ix = snd ix"
    by (auto simp: set_zip)
  with r that [of "fst ix"] show thesis by (auto split: if_splits)
qed

lemma object_error:
  assumes "validate env p (JoiObject specs) (JObj kvs) = Inl (q, m)"
  obtains ks where "ks \<in> set specs" and "validate_key env p kvs ks = Inl (q, m)"
  | k where "k \<in> set (map fst kvs)" and "k \<notin> set (map spec_key specs)"
      and "verr (p @ [Key k]) ''is not allowed'' = (Inl (q, m) :: verror + jsval)"
proof (cases "firstError (map (validate_key env p kvs) specs)")
  case (Inl e)
  with assms have e: "e = (q, m)" by simp
  from firstError_Inl [OF Inl] obtain ks where "ks \<in> set specs"
    and "validate_key env p kvs ks = Inl (q, m)"
    unfolding e by auto
  then show thesis by (rule that(1))
next
  case (Inr rs)
  with assms obtain k ks where f: "filter (\<lambda>k. k \<notin> set (map spec_key specs)) (map fst kvs) = k # ks"
    and v: "verr (p @ [Key k]) ''is not allowed'' = (Inl (q, m) :: verror + jsval)"
    by (auto split: list.splits)
  from f have "k \<in> set (filter (\<lambda>k. k \<notin> set (map spec_key specs)) (map fst kvs))" by simp
  then have k: "k \<in> set (map fst kvs)" "k \<notin> set (map spec_key specs)" by auto
  show thesis by (rule that(2) [OF k v])
qed

lemma validate_error_names_path:
  "validate env p s v = Inl (q, m) \<Longrightarrow> prefix ([CHR 0x22] @ label q @ [CHR 0x22]) m"
  "validate_key env p kvs ks = Inl (q, m) \<Longrightarrow> prefix ([CHR 0x22] @ label q @ [CHR 0x22]) m"
proof (induction env p s v and env p kvs ks rule: validate_validate_key.induct)
  case (1 env p v)
  then show ?case by (auto split: jsval.splits if_splits dest: verr_quoted)
next
  case (2 env p vs v)
  then show ?case by (auto split: jsval.splits if_splits dest: verr_quoted)
next
  case (3 env p v)
  then show ?case by (auto split: jsval.splits if_splits dest: verr_quoted)
next
  case (4 env p v)
  then show ?case by (auto split: sum.splits dest: verr_quoted)
next
  case (5 env p v)
  then show ?case by (auto split: option.splits dest: verr_quoted)
next
  case (6 env p v)
  then show ?case by (auto split: jsval.splits if_splits dest: verr_quoted)
next
  case (7 env p item v)
  show ?case
  proof (cases v)
    case (JArr xs)
    from 7(2) [unfolded JArr] show ?thesis
    proof (rule array_error)
      fix i assume i: "i < length xs"
        and r: "if xs ! i = JUndefined
                then verr (p @ [Idx i]) ''must not be a sparse array item'' = (Inl (q, m) :: verror + jsval)
                else validate env (p @ [Idx i]) item (xs ! i) = Inl (q, m)"
      show ?thesis
      proof (cases "xs ! i = JUndefined")
        case True
        with r show ?thesis by (auto dest: verr_quoted)
      next
        case False
        from i have "(i, xs ! i) \<in> set (zip [0 ..< length xs] xs)"
          by (rule nth_in_zip_upt)
        from 7(1) [OF JArr this] False r show ?thesis by simp
      qed
    qed
  qed (use 7(2) in \<open>auto dest: verr_quoted\<close>)
next
  case (8 env p specs v)
  show ?case
  proof (cases v)
    case (JObj kvs)
    from 8(2) [unfolded JObj] show ?thesis
    proof (rule object_error)
      fix ks assume "ks \<in> set specs" "validate_key env p kvs ks = Inl (q, m)"
      with 8(1) [OF JObj] show ?thesis by blast
    next
      fix k assume "verr (p @ [Key k]) ''is not allowed'' = (Inl (q, m) :: verror + jsval)"
      then show ?thesis by (rule verr_quoted)
    qed
  qed (use 8(2) in \<open>auto dest: verr_quoted\<close>)
next
  case (9 env p kvs k pr d s)
  then show ?case by (auto split: if_splits presence.splits dest: verr_quoted)
qed

text \<open>
  The validator and the constraints agree. An error of the validator is reported at the
  path of a field that offends against the constraints its schema states, and a value in
  which some field offends is refused.
\<close>

lemma field_name_fieldConstraint: "field_name (fieldConstraint ks) = spec_key ks"
  by (cases ks) (simp add: field_name_def spec_key_def)

lemma validate_sound:
  "validate env p s v = Inl (q, m) \<Longrightarrow> \<exists>r. q = p @ r \<and> offends env (constraintsOf s) v r"
  "validate_key env p kvs ks = Inl (q, m)
     \<Longrightarrow> \<exists>r. q = p @ Key (spec_key ks) # r
             \<and> offendsField env kvs (fieldConstraint ks) (spec_key ks) r"
proof (induction env p s v and env p kvs ks rule: validate_validate_key.induct)
  case (1 env p v)
  then show ?case by (auto split: jsval.splits if_splits dest: verr_path)
next
  case (2 env p vs v)
  then show ?case by (auto split: jsval.splits if_splits dest: verr_path)
next
  case (3 env p v)
  then show ?case by (auto split: jsval.splits if_splits dest: verr_path)
next
  case (4 env p v)
  then show ?case by (auto split: sum.splits dest: verr_path)
next
  case (5 env p v)
  then show ?case by (auto split: option.splits dest: verr_path)
next
  case (6 env p v)
  then show ?case by (auto split: jsval.splits if_splits dest: verr_path)
next
  case (7 env p item v)
  show ?case
  proof (cases v)
    case (JArr xs)
    from 7(2) [unfolded JArr] show ?thesis
    proof (rule array_error)
      fix i assume i: "i < length xs"
        and r: "if xs ! i = JUndefined
                then verr (p @ [Idx i]) ''must not be a sparse array item'' = (Inl (q, m) :: verror + jsval)
                else validate env (p @ [Idx i]) item (xs ! i) = Inl (q, m)"
      show ?thesis
      proof (cases "xs ! i = JUndefined")
        case True
        with r have "q = p @ [Idx i]" by (auto dest: verr_path)
        with True i JArr show ?thesis by simp
      next
        case False
        from i have "(i, xs ! i) \<in> set (zip [0 ..< length xs] xs)"
          by (rule nth_in_zip_upt)
        from 7(1) [OF JArr this] False r obtain r' where
          "q = (p @ [Idx i]) @ r'" "offends env (constraintsOf item) (xs ! i) r'"
          by auto
        with False i JArr show ?thesis by simp
      qed
    qed
  qed (use 7(2) in \<open>auto dest: verr_path\<close>)
next
  case (8 env p specs v)
  show ?case
  proof (cases v)
    case (JObj kvs)
    from 8(2) [unfolded JObj] show ?thesis
    proof (rule object_error)
      fix ks assume ks: "ks \<in> set specs" and e: "validate_key env p kvs ks = Inl (q, m)"
      from 8(1) [OF JObj ks e] obtain r where
        q: "q = p @ Key (spec_key ks) # r"
        and o: "offendsField env kvs (fieldConstraint ks) (spec_key ks) r"
        by auto
      from ks have "spec_key ks \<in> set (map field_name (map fieldConstraint specs))"
        by (auto simp: field_name_fieldConstraint intro!: image_eqI [where x = ks])
      moreover from ks o
      have "list_ex (\<lambda>f. offendsField env kvs f (spec_key ks) r) (map fieldConstraint specs)"
        by (auto simp: list_ex_iff)
      ultimately have "offends env (constraintsOf (JoiObject specs)) (JObj kvs) (Key (spec_key ks) # r)"
        by simp
      with q JObj show ?thesis by blast
    next
      fix k assume k: "k \<in> set (map fst kvs)" "k \<notin> set (map spec_key specs)"
        and e: "verr (p @ [Key k]) ''is not allowed'' = (Inl (q, m) :: verror + jsval)"
      from e have q: "q = p @ [Key k]" by (rule verr_path)
      from k(2) have "k \<notin> set (map field_name (map fieldConstraint specs))"
        by (auto simp: field_name_fieldConstraint)
      with k(1) have "offends env (constraintsOf (JoiObject specs)) (JObj kvs) [Key k]"
        by simp
      with q JObj show ?thesis by blast
    qed
  qed (use 8(2) in \<open>auto dest: verr_path\<close>)
next
  case (9 env p kvs k pr d s)
  then show ?case
    by (auto simp: spec_key_def split: if_splits presence.splits dest: verr_path)
qed


lemma array_item_fails:
  assumes "i < length xs"
    and "xs ! i \<noteq> JUndefined \<Longrightarrow> \<exists>e. validate env (p @ [Idx i]) item (xs ! i) = Inl e"
  shows "\<exists>e. validate env p (JoiArray item) (JArr xs) = Inl e"
proof -
  define r where "r = (\<lambda>ix. if snd ix = JUndefined
                 then verr (p @ [Idx (fst ix)]) ''must not be a sparse array item''
                 else validate env (p @ [Idx (fst ix)]) item (snd ix))"
  from assms(2) obtain e where e: "r (i, xs ! i) = Inl e"
    by (cases "xs ! i = JUndefined") (auto simp: verr_def r_def)
  from nth_in_zip_upt [OF assms(1)]
  have "r (i, xs ! i) \<in> set (map r (zip [0 ..< length xs] xs))"
    by (simp only: set_map) (rule imageI)
  then have "Inl e \<in> set (map r (zip [0 ..< length xs] xs))"
    by (simp only: e)
  from firstError_fails [OF this] show ?thesis by (auto simp: r_def)
qed

lemma object_key_fails:
  assumes "ks \<in> set specs" and "validate_key env p kvs ks = Inl e"
  shows "\<exists>e'. validate env p (JoiObject specs) (JObj kvs) = Inl e'"
proof -
  from assms have "Inl e \<in> set (map (validate_key env p kvs) specs)" by force
  from firstError_fails [OF this] show ?thesis by auto
qed

lemma unknown_key_fails:
  assumes "k \<in> set (map fst kvs)" and "k \<notin> set (map spec_key specs)"
  shows "\<exists>e. validate env p (JoiObject specs) (JObj kvs) = Inl e"
proof -
  from assms have "k \<in> set (filter (\<lambda>k. k \<notin> set (map spec_key specs)) (map fst kvs))"
    by simp
  then have "filter (\<lambda>k. k \<notin> set (map spec_key specs)) (map fst kvs) \<noteq> []"
    by (metis empty_iff empty_set)
  then show ?thesis
    by (auto simp: verr_def split: sum.splits list.splits)
qed

lemma offends_leaf:
  assumes "offends env c v r"
    and "\<And>item. c \<noteq> Sequence item" and "\<And>fs. c \<noteq> Fields fs"
  shows "r = [] \<and> \<not> accepts env c v"
proof (cases r)
  case Nil
  with assms(1) show ?thesis by simp
next
  case (Cons x q)
  with assms(1) show ?thesis
    by (cases x; cases c) (use assms(2,3) in auto)
qed

lemma validate_complete:
  "\<forall>r. offends env (constraintsOf s) v r \<longrightarrow> (\<exists>e. validate env p s v = Inl e)"
  "\<forall>k r. offendsField env kvs (fieldConstraint ks) k r
     \<longrightarrow> (\<exists>e. validate_key env p kvs ks = Inl e)"
proof (induction env p s v and env p kvs ks rule: validate_validate_key.induct)
  case (1 env p v)
  show ?case
    by (auto dest!: offends_leaf simp: verr_def split: jsval.splits)
next
  case (2 env p vs v)
  show ?case
    by (auto dest!: offends_leaf simp: verr_def split: jsval.splits)
next
  case (3 env p v)
  show ?case
    by (auto dest!: offends_leaf simp: verr_def split: jsval.splits)
next
  case (4 env p v)
  show ?case
    by (auto dest!: offends_leaf simp: verr_def split: sum.splits)
next
  case (5 env p v)
  show ?case
    by (auto dest!: offends_leaf simp: verr_def split: option.splits)
next
  case (6 env p v)
  show ?case
    by (auto dest!: offends_leaf simp: verr_def split: jsval.splits)
next
  case (7 env p item v)
  show ?case
  proof (intro allI impI)
    fix r assume o: "offends env (constraintsOf (JoiArray item)) v r"
    show "\<exists>e. validate env p (JoiArray item) v = Inl e"
    proof (cases v)
      case (JArr xs)
      with o obtain i q where r: "r = Idx i # q" and i: "i < length xs"
        and further: "xs ! i \<noteq> JUndefined \<longrightarrow> offends env (constraintsOf item) (xs ! i) q"
        by (cases r; cases "hd r") (auto split: if_splits)
      have "\<exists>e. validate env (p @ [Idx i]) item (xs ! i) = Inl e" if "xs ! i \<noteq> JUndefined"
        using 7 [OF JArr nth_in_zip_upt [OF i]] that further by fastforce
      with i show ?thesis unfolding JArr by (rule array_item_fails)
    qed (auto simp: verr_def)
  qed
next
  case (8 env p specs v)
  show ?case
  proof (intro allI impI)
    fix r assume o: "offends env (constraintsOf (JoiObject specs)) v r"
    show "\<exists>e. validate env p (JoiObject specs) v = Inl e"
    proof (cases v)
      case (JObj kvs)
      with o obtain k q where r: "r = Key k # q"
        by (cases r; cases "hd r") auto
      show ?thesis
      proof (cases "k \<in> set (map spec_key specs)")
        case True
        then have "k \<in> set (map field_name (map fieldConstraint specs))"
          by (auto simp: field_name_fieldConstraint)
        with o r JObj obtain ks where ks: "ks \<in> set specs"
          and "offendsField env kvs (fieldConstraint ks) k q"
          by (auto simp: list_ex_iff)
        with 8 [OF JObj ks] obtain e where "validate_key env p kvs ks = Inl e"
          by blast
        with ks show ?thesis unfolding JObj by (rule object_key_fails)
      next
        case False
        then have "k \<notin> set (map field_name (map fieldConstraint specs))"
          by (auto simp: field_name_fieldConstraint)
        with o r JObj have "k \<in> set (map fst kvs)" by simp
        from this False show ?thesis unfolding JObj by (rule unknown_key_fails)
      qed
    qed (auto simp: verr_def)
  qed
next
  case (9 env p kvs k pr d s)
  then show ?case
    by (auto simp: verr_def split: presence.splits)
qed

lemma schema_constraints: "constraintsOf personalDataSchema = profileConstraints"
  by (simp add: personalDataSchema_def profileConstraints_def optionalKey_def requiredKey_def
      biographySchema_def biographyFields_def skillSchema_def skillFields_def
      projectSchema_def projectFields_def preferencesSchema_def preferencesFields_def
      socialLinkSchema_def socialLinkFields_def experienceSchema_def experienceFields_def
      educationSchema_def educationFields_def metadataSchema_def metadataFields_def)

text \<open>
  Conversely, a document in which no field offends is accepted: the constraints describe
  exactly the documents that are refused.
\<close>

lemma validates_unless_offending:
  assumes "\<And>q. \<not> offends env profileConstraints newData q"
  shows "\<exists>v. validateData env newData = Inr v"
proof (cases "validateData env newData")
  case (Inl e)
  then have "validate env [] personalDataSchema newData = Inl (fst e, snd e)"
    by (simp add: validateData_def split: if_splits)
  from validate_sound(1) [OF this] assms show ?thesis
    unfolding schema_constraints by simp
qed simp

text \<open>
  Fields that offend, written out: a required field missing from an entry of a list or
  from the biography, and a \<open>proficiency\<close> or \<open>status\<close> that is present and is not one
  of the allowed texts, whatever kind of value it is.
\<close>

lemma offends_missing:
  assumes "FieldSpec k Required c \<in> set fs" and "own kvs k = JUndefined"
  shows "offends env (Fields fs) (JObj kvs) [Key k]"
proof -
  from assms(1) have "k \<in> set (map field_name fs)"
    by (force simp: field_name_def)
  moreover from assms have "list_ex (\<lambda>f. offendsField env kvs f k []) fs"
    by (force simp: list_ex_iff)
  ultimately show ?thesis by simp
qed

lemma offends_below_key:
  assumes "FieldSpec k need c \<in> set fs" and "own kvs k \<noteq> JUndefined"
    and "offends env c (own kvs k) q"
  shows "offends env (Fields fs) (JObj kvs) (Key k # q)"
proof -
  from assms(1) have "k \<in> set (map field_name fs)"
    by (force simp: field_name_def)
  moreover from assms have "list_ex (\<lambda>f. offendsField env kvs f k q) fs"
    by (force simp: list_ex_iff)
  ultimately show ?thesis by simp
qed

lemma entry_field_offends:
  assumes sec: "FieldSpec sec Optional (Sequence c) \<in> set fs"
    and d: "own d sec = JArr xs" "i < length xs" "xs ! i = JObj e"
    and o: "offends env c (JObj e) q"
  shows "offends env (Fields fs) (JObj d) (Key sec # Idx i # q)"
proof -
  from d o have "offends env (Sequence c) (own d sec) (Idx i # q)"
    by simp
  with d(1) show ?thesis
    by (intro offends_below_key [OF sec]) simp_all
qed

lemma missing_required_field_offends:
  assumes d: "own d sec = JArr xs" "i < length xs" "xs ! i = JObj e"
    and e: "own e k = JUndefined"
    and k: "(sec, k) \<in> {(''skills'', ''name''), (''skills'', ''category''), (''skills'', ''proficiency''),
                      (''projects'', ''name''), (''projects'', ''description''), (''projects'', ''status''),
                      (''experience'', ''company''), (''experience'', ''position''),
                      (''experience'', ''startDate''),
                      (''education'', ''institution''), (''education'', ''degree''),
                      (''education'', ''field''),
                      (''socialLinks'', ''platform''), (''socialLinks'', ''url'')}"
  shows "offends env profileConstraints (JObj d) [Key sec, Idx i, Key k]"
proof -
  from k obtain fs c where
    sec: "FieldSpec sec Optional (Sequence (Fields fs))
       \<in> set [FieldSpec ''skills'' Optional (Sequence skillFields),
              FieldSpec ''projects'' Optional (Sequence projectFields),
              FieldSpec ''socialLinks'' Optional (Sequence socialLinkFields),
              FieldSpec ''experience'' Optional (Sequence experienceFields),
              FieldSpec ''education'' Optional (Sequence educationFields)]"
    and req: "FieldSpec k Required c \<in> set fs"
    unfolding skillFields_def projectFields_def socialLinkFields_def experienceFields_def
      educationFields_def
    by (elim insertE emptyE) (simp_all only: prod.inject, fastforce+)
  from sec have "FieldSpec sec Optional (Sequence (Fields fs))
               \<in> set [FieldSpec ''id'' Optional Text,
                      FieldSpec ''biography'' Optional biographyFields,
                      FieldSpec ''skills'' Optional (Sequence skillFields),
                      FieldSpec ''projects'' Optional (Sequence projectFields),
                      FieldSpec ''preferences'' Optional preferencesFields,
                      FieldSpec ''socialLinks'' Optional (Sequence socialLinkFields),
                      FieldSpec ''experience'' Optional (Sequence experienceFields),
                      FieldSpec ''education'' Optional (Sequence educationFields),
                      FieldSpec ''metadata'' Optional metadataFields]"
    by auto
  moreover from req e have "offends env (Fields fs) (JObj e) [Key k]"
    by (rule offends_missing)
  ultimately show ?thesis
    unfolding profileConstraints_def by (rule entry_field_offends [OF _ d])
qed

lemma missing_biography_field_offends:
  assumes d: "own d ''biography'' = JObj b" and b: "own b k = JUndefined"
    and k: "k \<in> {''name'', ''title'', ''description''}"
  shows "offends env profileConstraints (JObj d) [Key ''biography'', Key k]"
proof -
  from k have "FieldSpec k Required Text \<in> set [FieldSpec ''name'' Required Text,
      FieldSpec ''title'' Required Text,
      FieldSpec ''description'' Required Text,
      FieldSpec ''location'' Optional Text,
      FieldSpec ''age'' Optional Number,
      FieldSpec ''background'' Optional Text]"
    by auto
  from offends_missing [OF this b] d
  have "offends env biographyFields (own d ''biography'') [Key k]"
    by (simp only: biographyFields_def)
  with d show ?thesis
    unfolding profileConstraints_def
    by (intro offends_below_key [where need = Optional and c = biographyFields]) simp_all
qed

lemma enumerated_field_offends:
  assumes d: "own d sec = JArr xs" "i < length xs" "xs ! i = JObj e"
    and e: "own e k \<noteq> JUndefined" "own e k \<notin> JStr ` set allowed"
    and k: "(sec, k, allowed)
           \<in> {(''skills'', ''proficiency'', [''beginner'', ''intermediate'', ''advanced'', ''expert'']),
              (''projects'', ''status'', [''completed'', ''in-progress'', ''planned'', ''archived''])}"
  shows "offends env profileConstraints (JObj d) [Key sec, Idx i, Key k]"
proof -
  from k obtain fs where
    sec: "FieldSpec sec Optional (Sequence (Fields fs))
       \<in> set [FieldSpec ''skills'' Optional (Sequence skillFields),
              FieldSpec ''projects'' Optional (Sequence projectFields)]"
    and enum: "FieldSpec k Required (TextIn allowed) \<in> set fs"
    unfolding skillFields_def projectFields_def
    by (elim insertE emptyE) (simp_all only: prod.inject, fastforce+)
  from sec have "FieldSpec sec Optional (Sequence (Fields fs))
               \<in> set [FieldSpec ''id'' Optional Text,
                      FieldSpec ''biography'' Optional biographyFields,
                      FieldSpec ''skills'' Optional (Sequence skillFields),
                      FieldSpec ''projects'' Optional (Sequence projectFields),
                      FieldSpec ''preferences'' Optional preferencesFields,
                      FieldSpec ''socialLinks'' Optional (Sequence socialLinkFields),
                      FieldSpec ''experience'' Optional (Sequence experienceFields),
                      FieldSpec ''education'' Optional (Sequence educationFields),
                      FieldSpec ''metadata'' Optional metadataFields]"
    by auto
  moreover from e(2) have "offends env (TextIn allowed) (own e k) []"
    by (cases "own e k") auto
  with enum e(1) have "offends env (Fields fs) (JObj e) [Key k]"
    by (rule offends_below_key)
  ultimately show ?thesis
    unfolding profileConstraints_def by (rule entry_field_offends [OF _ d])
qed

text \<open>
  C5 (every violation is refused) fails on the code for text in the place of a boolean.
  The validator converts the text \<open>true\<close> or \<open>false\<close> to the boolean: a social link
  whose \<open>isPublic\<close> is the text \<open>false\<close> is written, and is stored with the boolean.
\<close>

theorem updateData_converts_boolean_text:
  "updateData exampleEnv day1 exampleUuid (JObj [(''socialLinks'', JArr [quietLink])])
      (writeJson (initialData day0))
   = (Inr (JObj [(''socialLinks'', JArr [JObj [(''platform'', JStr ''github''),
                (''url'', JStr ''https://github.com/ann''), (''isPublic'', JBool False),
                (''id'', JStr ''uuid-0'')]]),
                 (''metadata'', JObj [(''updatedAt'', JStr day1), (''version'', JStr ''1.0.0'')])]),
      Some [(''socialLinks'', JArr [JObj [(''platform'', JStr ''github''),
                (''url'', JStr ''https://github.com/ann''), (''isPublic'', JBool False),
                (''id'', JStr ''uuid-0'')]]),
            (''metadata'', JObj [(''updatedAt'', JStr day1), (''version'', JStr ''1.0.0'')])])"
  by code_simp

text \<open>
  C5, amended: for every document in which some field offends (it is required and missing,
  or its value is outside its enumeration, or its value is not of its type, where the text
  \<open>true\<close> or \<open>false\<close> counts as a boolean and what the validator converts counts as a
  number or a date; or it is no field of the data model at all), \<open>updateData\<close> throws
  \<open>Validation error: m\<close>, where \<open>m\<close> starts with the quoted path of a field that
  offends, and leaves the data file as it was.
\<close>

theorem updateData_refuses_offending_document:
  assumes "newData \<noteq> JUndefined" and "offends env profileConstraints newData q"
  shows "\<exists>q' m. offends env profileConstraints newData q'
           \<and> updateData env now uuid newData f = (Inl (Error (''Validation error: '' @ m)), f)
           \<and> prefix ([CHR 0x22] @ label q' @ [CHR 0x22]) m"
proof -
  from assms(2) validate_complete(1) [of env personalDataSchema newData "[]"]
  obtain q' m where e: "validate env [] personalDataSchema newData = Inl (q', m)"
    unfolding schema_constraints by fastforce
  from validate_sound(1) [OF e] have "offends env profileConstraints newData q'"
    unfolding schema_constraints by simp
  moreover from e assms(1)
  have "updateData env now uuid newData f = (Inl (Error (''Validation error: '' @ m)), f)"
    by (simp add: updateData_def validateData_def)
  moreover from e have "prefix ([CHR 0x22] @ label q' @ [CHR 0x22]) m"
    by (rule validate_error_names_path(1))
  ultimately show ?thesis by blast
qed

theorem updateData_refuses_offending_document_witness:
  "JObj [(''skills'', JArr [bogusSkill])] \<noteq> JUndefined
   \<and> offends exampleEnv profileConstraints (JObj [(''skills'', JArr [bogusSkill])])
        [Key ''skills'', Idx 0, Key ''proficiency'']
   \<and> (\<exists>q' m. offends exampleEnv profileConstraints (JObj [(''skills'', JArr [bogusSkill])]) q'
         \<and> updateData exampleEnv day1 exampleUuid (JObj [(''skills'', JArr [bogusSkill])])
              (writeJson (initialData day0))
            = (Inl (Error (''Validation error: '' @ m)), writeJson (initialData day0))
         \<and> prefix ([CHR 0x22] @ label q' @ [CHR 0x22]) m)
   \<and> updateData exampleEnv day1 exampleUuid (JObj [(''skills'', JArr [bogusSkill])])
        (writeJson (initialData day0))
     = (Inl (Error (''Validation error: \"skills[0].proficiency\" must be one of ''
                    @ ''[beginner, intermediate, advanced, expert]'')),
        writeJson (initialData day0))
   \<and> JObj [(''skills'', JArr [reactSkill, namelessSkill])] \<noteq> JUndefined
   \<and> offends exampleEnv profileConstraints (JObj [(''skills'', JArr [reactSkill, namelessSkill])])
        [Key ''skills'', Idx 1, Key ''name'']
   \<and> (\<exists>q' m. offends exampleEnv profileConstraints
                  (JObj [(''skills'', JArr [reactSkill, namelessSkill])]) q'
         \<and> updateData exampleEnv day1 exampleUuid
              (JObj [(''skills'', JArr [reactSkill, namelessSkill])]) (writeJson (initialData day0))
            = (Inl (Error (''Validation error: '' @ m)), writeJson (initialData day0))
         \<and> prefix ([CHR 0x22] @ label q' @ [CHR 0x22]) m)
   \<and> updateData exampleEnv day1 exampleUuid
        (JObj [(''skills'', JArr [reactSkill, namelessSkill])]) (writeJson (initialData day0))
     = (Inl (Error ''Validation error: \"skills[1].name\" is required''),
        writeJson (initialData day0))"
proof -
  have d1: "JObj [(''skills'', JArr [bogusSkill])] \<noteq> JUndefined" by simp
  have o1: "offends exampleEnv profileConstraints (JObj [(''skills'', JArr [bogusSkill])])
        [Key ''skills'', Idx 0, Key ''proficiency'']"
    by code_simp
  have r1: "updateData exampleEnv day1 exampleUuid (JObj [(''skills'', JArr [bogusSkill])])
        (writeJson (initialData day0))
     = (Inl (Error (''Validation error: \"skills[0].proficiency\" must be one of ''
                    @ ''[beginner, intermediate, advanced, expert]'')),
        writeJson (initialData day0))"
    by code_simp
  have d2: "JObj [(''skills'', JArr [reactSkill, namelessSkill])] \<noteq> JUndefined" by simp
  have o2: "offends exampleEnv profileConstraints
              (JObj [(''skills'', JArr [reactSkill, namelessSkill])])
              [Key ''skills'', Idx 1, Key ''name'']"
    by code_simp
  have r2: "updateData exampleEnv day1 exampleUuid
        (JObj [(''skills'', JArr [reactSkill, namelessSkill])]) (writeJson (initialData day0))
     = (Inl (Error ''Validation error: \"skills[1].name\" is required''),
        writeJson (initialData day0))"
    by code_simp
  note t1 = updateData_refuses_offending_document
              [OF d1 o1, of day1 exampleUuid "writeJson (initialData day0)"]
  note t2 = updateData_refuses_offending_document
              [OF d2 o2, of day1 exampleUuid "writeJson (initialData day0)"]
  show ?thesis by (intro conjI d1 o1 t1 r1 d2 o2 t2 r2)
qed


text \<open>
  C7 (idempotent re-save) fails for some stored documents. \<open>updateData({})\<close> stores a
  \<open>metadata\<close> object without \<open>createdAt\<close>, since the validator fills the defaults of
  \<open>metadata\<close> only when the object is present. Reading that document and writing it back
  adds \<open>metadata.createdAt\<close>.
\<close>

theorem resave_adds_createdAt:
  "storedAfterEmptyWrite
     = Some [(''metadata'', JObj [(''updatedAt'', JStr day1), (''version'', JStr ''1.0.0'')])]
   \<and> snd (updateData exampleEnv day2 exampleUuid (getAllData storedAfterEmptyWrite)
            storedAfterEmptyWrite)
     = Some [(''metadata'', JObj [(''updatedAt'', JStr day2), (''version'', JStr ''1.0.0''),
                                  (''createdAt'', JNum ''1704240000000'')])]"
  by code_simp

lemma put_own_same: "own kvs k = v \<Longrightarrow> v \<noteq> JUndefined \<Longrightarrow> put kvs k v = kvs"
  by (induction kvs k v rule: put.induct) (auto simp: own_def split: if_splits)

lemma written_clean:
  assumes "map (\<lambda>kv. (fst kv, toJSON (snd kv))) (filter (\<lambda>kv. snd kv \<noteq> JUndefined) d) = d"
  shows "list_all (\<lambda>kv. snd kv \<noteq> JUndefined \<and> toJSON (snd kv) = snd kv) d"
proof -
  from assms have "length (filter (\<lambda>kv. snd kv \<noteq> JUndefined) d) = length d"
    by (metis length_map)
  then have f: "filter (\<lambda>kv. snd kv \<noteq> JUndefined) d = d"
    by (metis length_filter_less less_irrefl filter_True)
  with assms have "map (\<lambda>kv. (fst kv, toJSON (snd kv))) d = d" by simp
  then have "\<forall>kv \<in> set d. (fst kv, toJSON (snd kv)) = kv"
    by (simp add: map_idI map_eq_conv [where g = "\<lambda>x. x", simplified])
  moreover from f have "\<forall>kv \<in> set d. snd kv \<noteq> JUndefined"
    by (simp add: filter_id_conv)
  ultimately show ?thesis
    by (auto simp: list_all_iff)
qed


lemma written_clean':
  assumes "writeJson d = Some d"
  shows "cleanObj d"
  unfolding cleanObj_def using assms by (intro written_clean) (simp add: writeJson_Some)

lemma clean_writeJson: "cleanObj d \<Longrightarrow> writeJson d = Some d"
proof -
  assume c: "cleanObj d"
  then have "filter (\<lambda>kv. snd kv \<noteq> JUndefined) d = d"
    by (auto simp: cleanObj_def list_all_iff filter_id_conv)
  moreover from c have "map (\<lambda>kv. (fst kv, toJSON (snd kv))) d = d"
    by (intro map_idI) (auto simp: cleanObj_def list_all_iff)
  ultimately show ?thesis by (simp add: writeJson_Some)
qed

lemma clean_put:
  "cleanObj d \<Longrightarrow> v \<noteq> JUndefined \<Longrightarrow> toJSON v = v \<Longrightarrow> cleanObj (put d k v)"
  by (induction d k v rule: put.induct) (auto simp: cleanObj_def)

lemma own_in_set: "own d k = v \<Longrightarrow> v \<noteq> JUndefined \<Longrightarrow> (k, v) \<in> set d"
  by (auto simp: own_def split: option.splits dest: map_of_SomeD)

lemma clean_own:
  assumes "cleanObj d" and "own d k = JObj m"
  shows "cleanObj m"
proof -
  from own_in_set [OF assms(2)] have "(k, JObj m) \<in> set d" by simp
  with assms(1) have "toJSON (JObj m) = JObj m"
    by (auto simp: cleanObj_def list_all_iff)
  then have "writeJson m = Some m" by (simp add: writeJson_def)
  then show ?thesis by (rule written_clean')
qed

lemma addIds_present:
  assumes "list_all (\<lambda>x. case x of JObj e \<Rightarrow> truthy (own e ''id'') | _ \<Rightarrow> False) xs"
  shows "addIds uuid n xs = Inr (xs, n)"
  using assms
proof (induction xs)
  case Nil
  show ?case by simp
next
  case (Cons x xs)
  then obtain e where x: "x = JObj e" and t: "truthy (own e ''id'')"
    by (auto split: jsval.splits)
  from t have "own e ''id'' \<noteq> JUndefined" by auto
  then have "put e ''id'' (own e ''id'') = e" by (simp add: put_own_same)
  with Cons x t show ?case by (simp add: bindE_def)
qed

lemma addSectionIds_present:
  assumes "has_ids (own d k)"
  shows "addSectionIds uuid k (d, n) = Inr (d, n)"
proof (cases "truthy (own d k)")
  case False
  then show ?thesis by (simp add: addSectionIds_def)
next
  case True
  with assms obtain xs where xs: "own d k = JArr xs"
    and ids: "list_all (\<lambda>x. case x of JObj e \<Rightarrow> truthy (own e ''id'') | _ \<Rightarrow> False) xs"
    by (auto simp: has_ids_def split: jsval.splits)
  from xs have "put d k (JArr xs) = d" by (simp add: put_own_same)
  with True xs addIds_present [OF ids] show ?thesis
    by (simp add: addSectionIds_def bindE_def)
qed

text \<open>
  C7, amended: for a stored document that the validator returns unchanged (every schema
  default present, every date in the form it is written in), whose list entries all have
  an identifier and whose \<open>metadata.version\<close> is \<open>1.0.0\<close>, writing the document read
  from the data file back through \<open>updateData\<close> stores the same document with
  \<open>metadata.updatedAt\<close> set to the current time, and nothing else changed.
\<close>

theorem resave_changes_only_updatedAt:
  assumes valid: "validateData env (JObj d) = Inr (JObj d)"
    and stored: "writeJson d = Some d"
    and ids: "has_ids (own d ''skills'')" "has_ids (own d ''projects'')"
      "has_ids (own d ''socialLinks'')" "has_ids (own d ''experience'')"
      "has_ids (own d ''education'')"
    and meta: "own d ''metadata'' = JObj m" "own m ''version'' = JStr ''1.0.0''"
  shows "updateData env now uuid (getAllData (Some d)) (Some d)
           = (Inr (JObj (put d ''metadata'' (JObj (put m ''updatedAt'' (JStr now))))),
              Some (put d ''metadata'' (JObj (put m ''updatedAt'' (JStr now)))))"
proof -
  let ?m' = "put m ''updatedAt'' (JStr now)"
  have chain: "bindE (addSectionIds uuid ''skills'' (d, 0)) (\<lambda>v1.
               bindE (addSectionIds uuid ''projects'' v1) (\<lambda>v2.
               bindE (addSectionIds uuid ''socialLinks'' v2) (\<lambda>v3.
               bindE (addSectionIds uuid ''experience'' v3) (\<lambda>v4.
               addSectionIds uuid ''education'' v4)))) = Inr (d, 0)"
    by (simp add: addSectionIds_present ids bindE_def)
  have "own ?m' ''version'' = JStr ''1.0.0''"
    using meta(2) by (simp add: own_put_other)
  then have version: "put ?m' ''version'' (JStr ''1.0.0'') = ?m'"
    by (simp add: put_own_same)
  have cd: "cleanObj d" using stored by (rule written_clean')
  then have "cleanObj m" using meta(1) by (rule clean_own)
  then have "cleanObj ?m'" by (simp add: clean_put)
  then have "toJSON (JObj ?m') = JObj ?m'"
    using clean_writeJson [of ?m'] by (simp add: writeJson_Some)
  with cd have "cleanObj (put d ''metadata'' (JObj ?m'))"
    by (intro clean_put) simp_all
  then have written: "writeJson (put d ''metadata'' (JObj ?m'))
                        = Some (put d ''metadata'' (JObj ?m'))"
    by (rule clean_writeJson)
  show ?thesis
    unfolding updateData_def getAllData_def option.case valid sum.case jsval.case chain
    by (simp add: Let_def meta(1) version written)
qed

theorem resave_changes_only_updatedAt_witness:
  "validateData exampleEnv (JObj annStored) = Inr (JObj annStored)
   \<and> writeJson annStored = Some annStored
   \<and> has_ids (own annStored ''skills'') \<and> has_ids (own annStored ''projects'')
   \<and> has_ids (own annStored ''socialLinks'') \<and> has_ids (own annStored ''experience'')
   \<and> has_ids (own annStored ''education'')
   \<and> snd (updateData exampleEnv day2 exampleUuid (getAllData (Some annStored)) (Some annStored))
     = Some (annProfile @ [(''metadata'', JObj [(''createdAt'', JStr day0),
                                                (''updatedAt'', JStr day2),
                                                (''version'', JStr ''1.0.0'')])])"
proof -
  have v: "validateData exampleEnv (JObj annStored) = Inr (JObj annStored)" by code_simp
  have w: "writeJson annStored = Some annStored" by code_simp
  have i: "has_ids (own annStored ''skills'')" "has_ids (own annStored ''projects'')"
      "has_ids (own annStored ''socialLinks'')" "has_ids (own annStored ''experience'')"
      "has_ids (own annStored ''education'')"
    by code_simp+
  have m: "own annStored ''metadata'' = JObj [(''createdAt'', JStr day0),
             (''updatedAt'', JStr day1), (''version'', JStr ''1.0.0'')]"
    "own [(''createdAt'', JStr day0), (''updatedAt'', JStr day1),
          (''version'', JStr ''1.0.0'')] ''version'' = JStr ''1.0.0''"
    by code_simp+
  have p: "put annStored ''metadata'' (JObj (put [(''createdAt'', JStr day0),
             (''updatedAt'', JStr day1), (''version'', JStr ''1.0.0'')] ''updatedAt'' (JStr day2)))
           = annProfile @ [(''metadata'', JObj [(''createdAt'', JStr day0),
                                                (''updatedAt'', JStr day2),
                                                (''version'', JStr ''1.0.0'')])]"
    by code_simp
  from resave_changes_only_updatedAt [OF v w i m, of "day2" exampleUuid] v w i p
  show ?thesis by simp
qed


section \<open>Properties of the context window\<close>

lemma slice_last_short: "length xs \<le> n \<Longrightarrow> slice_last n xs = xs"
  by (simp add: slice_last_def)

lemma slice_last_append: "slice_last n (slice_last n xs @ ys) = slice_last n (xs @ ys)"
proof -
  have "length xs + length ys - (length xs - n + n) + (length xs - n)
          = length xs + length ys - n"
    by arith
  then show ?thesis by (simp add: slice_last_def)
qed

lemma slice_last_long: "n \<le> length ys \<Longrightarrow> slice_last n (xs @ ys) = slice_last n ys"
  by (simp add: slice_last_def)

lemma length_slice_last: "length (slice_last n xs) = min n (length xs)"
  by (simp add: slice_last_def)

lemma getContext_update:
  "getContext sid (updateChatContext sid u a s)
     = slice_last 10 (getContext sid s @ [\<lparr>role = User, content = u\<rparr>, \<lparr>role = Assistant, content = a\<rparr>])"
proof (cases "chatContexts s sid")
  case None
  then show ?thesis
    by (simp add: getContext_def getOrEmpty_def updateChatContext_def alloc_def Let_def
        slice_last_def)
next
  case (Some c)
  then show ?thesis
    by (simp add: getContext_def getOrEmpty_def updateChatContext_def alloc_def Let_def
        slice_last_def)
qed

lemma getContext_appendAll:
  "getContext sid (appendAll sid (e # es) s)
     = slice_last 10 (getContext sid s @ concat (map exchange (e # es)))"
proof (induction es arbitrary: e s)
  case Nil
  show ?case by (simp add: appendAll_def getContext_update exchange_def)
next
  case (Cons e' es)
  have "getContext sid (appendAll sid (e # e' # es) s)
          = getContext sid (appendAll sid (e' # es) (updateChatContext sid (fst e) (snd e) s))"
    by (simp add: appendAll_def)
  also have "\<dots> = slice_last 10 (getContext sid (updateChatContext sid (fst e) (snd e) s)
                     @ concat (map exchange (e' # es)))"
    by (rule Cons.IH)
  also have "\<dots> = slice_last 10 ((getContext sid s @ exchange e) @ concat (map exchange (e' # es)))"
    unfolding getContext_update slice_last_append exchange_def by simp
  finally show ?case by simp
qed

lemma length_exchanges: "length (concat (map exchange es)) = 2 * length es"
  by (induction es) (simp_all add: exchange_def)

text \<open>
  C6: one append makes the session's turns the last ten of the old turns followed by the
  user turn and the assistant turn (all of them when the old turns were at most eight),
  and after six or more appends to a session its turns are exactly the last ten of all
  the turns appended, in their order.
\<close>

theorem context_window_append_and_cap:
  "getContext sid (updateChatContext sid u a s)
     = slice_last 10 (getContext sid s
         @ [\<lparr>role = User, content = u\<rparr>, \<lparr>role = Assistant, content = a\<rparr>])
   \<and> (length (getContext sid s) \<le> 8 \<longrightarrow>
        getContext sid (updateChatContext sid u a s)
          = getContext sid s @ [\<lparr>role = User, content = u\<rparr>, \<lparr>role = Assistant, content = a\<rparr>])
   \<and> (6 \<le> length es \<longrightarrow>
        getContext sid (appendAll sid es s) = slice_last 10 (concat (map exchange es))
        \<and> length (getContext sid (appendAll sid es s)) = 10)"
proof (intro conjI impI)
  show "getContext sid (updateChatContext sid u a s)
     = slice_last 10 (getContext sid s
         @ [\<lparr>role = User, content = u\<rparr>, \<lparr>role = Assistant, content = a\<rparr>])"
    by (rule getContext_update)
next
  assume "length (getContext sid s) \<le> 8"
  then show "getContext sid (updateChatContext sid u a s)
          = getContext sid s @ [\<lparr>role = User, content = u\<rparr>, \<lparr>role = Assistant, content = a\<rparr>]"
    by (simp add: getContext_update slice_last_short)
next
  assume six: "6 \<le> length es"
  then obtain e es' where es: "es = e # es'" by (cases es) auto
  have long: "10 \<le> length (concat (map exchange es))"
    using six by (simp add: length_exchanges)
  show eq: "getContext sid (appendAll sid es s) = slice_last 10 (concat (map exchange es))"
    using getContext_appendAll [of sid e es' s] long by (simp only: es slice_last_long)
  show "length (getContext sid (appendAll sid es s)) = 10"
    using long by (simp add: eq length_slice_last)
qed

theorem context_window_append_and_cap_witness:
  "getContext ''s1'' (updateChatContext ''s1'' ''hi'' ''Hi'' emptyChat)
     = [\<lparr>role = User, content = ''hi''\<rparr>, \<lparr>role = Assistant, content = ''Hi''\<rparr>]
   \<and> (6::nat) \<le> length sixExchanges
   \<and> getContext ''s1'' (appendAll ''s1'' sixExchanges emptyChat)
     = [\<lparr>role = User, content = ''q2''\<rparr>, \<lparr>role = Assistant, content = ''a2''\<rparr>,
        \<lparr>role = User, content = ''q3''\<rparr>, \<lparr>role = Assistant, content = ''a3''\<rparr>,
        \<lparr>role = User, content = ''q4''\<rparr>, \<lparr>role = Assistant, content = ''a4''\<rparr>,
        \<lparr>role = User, content = ''q5''\<rparr>, \<lparr>role = Assistant, content = ''a5''\<rparr>,
        \<lparr>role = User, content = ''q6''\<rparr>, \<lparr>role = Assistant, content = ''a6''\<rparr>]"
proof -
  have e: "getContext ''s1'' emptyChat = []"
    by (simp add: getContext_def getOrEmpty_def alloc_def emptyChat_def)
  have six: "(6::nat) \<le> length sixExchanges" by (simp add: sixExchanges_def)
  from context_window_append_and_cap [of "''s1''" "''hi''" "''Hi''" emptyChat sixExchanges] e six
  show ?thesis
    by (simp add: slice_last_def sixExchanges_def exchange_def)
qed


section \<open>Properties of the prompt composer\<close>


text \<open>
  The composer and the prompt of the specification. Each piece the composer appends is the
  piece the specification describes whenever the composer does not throw there, and a
  \<open>TypeError\<close> otherwise.
\<close>

lemma firstError_map_if:
  "firstError (map (\<lambda>x. if P x then Inr (g x) else Inl e) xs)
     = (if list_all P xs then Inr (map g xs) else Inl e)"
  by (induction xs) auto

lemma not_truthy_printable: "\<not> truthy v \<Longrightarrow> printable v"
  by (cases v) auto

lemma toStr_eq: "toStr v = (if printable v then Inr (textOf v) else Inl TypeError)"
proof (induction v rule: toStr.induct)
  case (6 xs)
  have eq: "map (\<lambda>x. if x = JUndefined \<or> x = JNull then Inr [] else toStr x) xs
          = map (\<lambda>x. if printable x
                      then Inr (if x = JUndefined \<or> x = JNull then [] else textOf x)
                      else Inl TypeError) xs"
    by (rule map_cong) (use 6 in auto)
  show ?case
    unfolding toStr.simps eq firstError_map_if by simp
qed simp_all

lemma elements_eq:
  "map (\<lambda>x. if x = JUndefined \<or> x = JNull then Inr [] else toStr x) xs
     = map (\<lambda>x. if printable x then Inr (elementText x) else Inl TypeError) xs"
  by (rule map_cong) (auto simp: toStr_eq elementText_def)

lemma joinArr_eq:
  "joinArr sep v
     = (if (case v of JArr xs \<Rightarrow> list_all printable xs | _ \<Rightarrow> False)
        then Inr (listText sep v) else Inl TypeError)"
  by (cases v) (simp_all add: joinArr_def listText_def elements_eq firstError_map_if)

lemma getp_eq: "getp x k = (if present x then Inr (propOf x k) else Inl TypeError)"
  by (cases x) (simp_all add: present_def propOf_def)

lemma field_eq:
  "field x k = (if present x \<and> printable (propOf x k)
                then Inr (textOf (propOf x k)) else Inl TypeError)"
  by (simp add: field_def getp_eq bindE_def toStr_eq)

lemma optField_eq:
  "optField x k pre post
     = (if present x \<and> printable (propOf x k)
        then Inr (labelled pre (propOf x k) post) else Inl TypeError)"
  by (auto simp: optField_def getp_eq bindE_def toStr_eq labelled_def dest: not_truthy_printable)

lemma optJoined_eq:
  "optJoined x k pre post
     = (if present x \<and> joinable (propOf x k)
        then Inr (labelledList pre (propOf x k) post) else Inl TypeError)"
  by (auto simp: optJoined_def getp_eq bindE_def joinArr_eq labelledList_def joinable_def)

lemma skillLine_eq:
  "skillLine x = (if skillRenders x then Inr (renderSkill x) else Inl TypeError)"
  by (simp add: skillLine_def skillRenders_def renderSkill_def catE_def bindE_def
      field_eq optField_eq)

lemma projectLine_eq:
  "projectLine x = (if projectRenders x then Inr (renderProject x) else Inl TypeError)"
  by (simp add: projectLine_def projectRenders_def renderProject_def catE_def bindE_def
      field_eq optJoined_eq)

lemma experienceLine_eq:
  "experienceLine x = (if jobRenders x then Inr (renderJob x) else Inl TypeError)"
  by (simp add: experienceLine_def jobRenders_def renderJob_def catE_def bindE_def
      field_eq optField_eq getp_eq)

lemma truthy_present: "truthy b \<Longrightarrow> present b"
  by (cases b) (simp_all add: present_def)

lemma biographyBlock_eq:
  "biographyBlock b = (if biographyRenders b then Inr (renderBiography b) else Inl TypeError)"
  by (simp add: biographyBlock_def biographyRenders_def renderBiography_def catE_def bindE_def
      field_eq optField_eq truthy_present)

lemma preferencesBlock_eq:
  "preferencesBlock pr
     = (if preferencesRender pr then Inr (renderPreferences pr) else Inl TypeError)"
  by (simp add: preferencesBlock_def preferencesRender_def renderPreferences_def catE_def
      bindE_def optField_eq optJoined_eq truthy_present)

lemma lengthPositive_error: "lengthPositive v = Inl e \<Longrightarrow> e = TypeError"
  by (cases v) simp_all

lemma listBlock_eq:
  assumes line: "\<And>x. line x = (if renders x then Inr (render x) else Inl TypeError)"
    and cap: "\<And>xs. (cap xs = []) = (xs = [])"
  shows "listBlock header cap line v
           = (if sectionRenders renders cap v
              then Inr (renderSection header (map render (cap (entriesOf v))))
              else Inl TypeError)"
proof (cases v)
  case (JArr xs)
  have eq: "map line (cap xs)
              = map (\<lambda>x. if renders x then Inr (render x) else Inl TypeError) (cap xs)"
    by (rule map_cong) (simp_all add: line)
  have "catE (Inr header # map line (cap xs))
          = (if list_all renders (cap xs) then Inr (header @ concat (map render (cap xs)))
             else Inl TypeError)"
    unfolding catE_def eq firstError.simps firstError_map_if by simp
  then show ?thesis
    using cap [of xs] cap [of "[]"]
    by (simp add: JArr listBlock_def sectionRenders_def renderSection_def entriesOf_def)
next
  case (JStr s)
  then show ?thesis
    using cap [of "[]"]
    by (simp add: listBlock_def sectionRenders_def renderSection_def entriesOf_def)
next
  case (JObj kvs)
  show ?thesis
  proof (cases "lengthPositive (own kvs ''length'')")
    case (Inl e)
    with lengthPositive_error [OF Inl] JObj show ?thesis
      by (simp add: listBlock_def sectionRenders_def bindE_def)
  next
    case (Inr positive)
    with JObj show ?thesis
      using cap [of "[]"]
      by (simp add: listBlock_def sectionRenders_def renderSection_def entriesOf_def bindE_def)
  qed
qed (use cap [of "[]"] in
      \<open>simp_all add: listBlock_def sectionRenders_def renderSection_def entriesOf_def\<close>)

lemma personalBlock_eq:
  "personalBlock c = (if composable c then Inr (renderPersonal c) else Inl TypeError)"
  by (simp add: personalBlock_def composable_def renderPersonal_def catE_def
      biographyBlock_eq preferencesBlock_eq
      listBlock_eq [OF skillLine_eq] listBlock_eq [OF projectLine_eq]
      listBlock_eq [OF experienceLine_eq])

lemma historyBlock_eq: "historyBlock hist = renderHistory hist"
  by (simp add: historyBlock_def renderHistory_def)

lemma createPersonalizedPrompt_eq:
  "createPersonalizedPrompt msg c hist
     = (if composable c then Inr (renderPrompt msg c hist) else Inl TypeError)"
  by (simp add: createPersonalizedPrompt_def personalBlock_eq bindE_def renderPrompt_def
      historyBlock_eq)

text \<open>
  On every other relevant-data object the composer throws, so the hypothesis of the theorem
  below leaves out no input for which a prompt is composed. This is stated for the
  relevant-data objects on which the model follows the program: those in which no list
  section is an object whose own \<open>length\<close> is text, an array or an object.
\<close>

lemma composer_throws_otherwise:
  assumes "\<not> composable c"
    and "\<forall>k \<in> {''skills'', ''projects'', ''experience''}. \<forall>kvs. own c k = JObj kvs \<longrightarrow>
           (case own kvs ''length'' of
              JStr t \<Rightarrow> False | JArr xs \<Rightarrow> False | JObj l \<Rightarrow> False | _ \<Rightarrow> True)"
  shows "createPersonalizedPrompt msg c hist = Inl TypeError"
  using assms(1) by (simp add: createPersonalizedPrompt_eq)










section \<open>Properties of the chat handler\<close>

lemma errorResponse_status: "fst (errorResponse e) \<noteq> 200"
  by (cases e) (simp_all add: errorResponse_def)

lemma heap_after_update:
  assumes "chatContexts s sid = Some a" and "a \<noteq> next_addr s"
  shows "heap (updateChatContext sid u t s) a
           = heap s a @ [\<lparr>role = User, content = u\<rparr>, \<lparr>role = Assistant, content = t\<rparr>]"
  using assms by (simp add: updateChatContext_def Let_def alloc_def)

lemma chatHandler_contextLength:
  assumes key: "key \<noteq> None" "key \<noteq> Some []" "key \<noteq> Some ''demo-key''"
    and req: "message req = Some m" "m \<noteq> []" "sessionId req = Some sid"
    and stored: "chatContexts (chat w) sid = Some a" "a \<noteq> next_addr (chat w)"
    and ok: "fst (fst (chatHandler key generate req w)) = 200"
  shows "own (snd (fst (chatHandler key generate req w))) ''contextLength''
           = JNum (show_nat (length (heap (chat w) a) + 2))"
proof -
  define wc where "wc = (case includePersonalContext req of None \<Rightarrow> True | Some b \<Rightarrow> b)"
  define ctx where "ctx = (if wc then searchRelevantData m (dataFile w) else [])"
  define r where "r = bindE (createPersonalizedPrompt m ctx (heap (chat w) a)) generate"
  have h: "getOrEmpty sid (chat w) = (a, chat w)"
    using stored by (simp add: getOrEmpty_def)
  have eq: "chatHandler key generate req w
      = (case r of
           Inl e \<Rightarrow> (errorResponse e, w\<lparr>chat := chat w\<rparr>)
         | Inr text \<Rightarrow>
             ((200, [(''response'', JStr text),
                     (''sessionId'', JStr sid),
                     (''personalDataUsed'', JBool (wc \<and> length ctx > 0)),
                     (''contextLength'', JNum (show_nat (length (heap (updateChatContext sid m text (chat w)) a)))),
                     (''isDemo'', JBool False)]),
              w\<lparr>chat := updateChatContext sid m text (chat w)\<rparr>))"
    unfolding chatHandler_def Let_def req option.case h fst_conv snd_conv
      wc_def [symmetric] ctx_def [symmetric] r_def [symmetric]
    using key req(2) by (cases key) simp_all
  show ?thesis
  proof (cases r)
    case (Inl e)
    with ok eq errorResponse_status [of e] show ?thesis by simp
  next
    case (Inr reply)
    with eq show ?thesis
      by (simp add: own_def heap_after_update [OF stored])
  qed
qed

text \<open>
  C2 (\<open>contextLength\<close> is the length before the update) fails on the code for a session
  that already has turns. \<open>conversationHistory\<close> is the array stored in \<open>chatContexts\<close>
  itself, \<open>updateChatContext\<close> pushes the two new turns onto that same array, and
  \<open>conversationHistory.length\<close> is read afterwards. Session \<open>s1\<close> has two turns after the
  first exchange; the second request answers \<open>contextLength = 4\<close>, where the first
  answered \<open>0\<close>. With ten turns stored the answer is \<open>12\<close>, more than the window ever
  holds.
\<close>

theorem contextLength_counts_new_turns:
  "getContext ''s1'' (chat worldAfterHi)
     = [\<lparr>role = User, content = ''hi''\<rparr>, \<lparr>role = Assistant, content = ''Hi''\<rparr>]
   \<and> fst (chatHandler (Some ''test-key'') answerHi (chatRequest ''again'') worldAfterHi)
     = (200, [(''response'', JStr ''Hi''),
              (''sessionId'', JStr ''s1''),
              (''personalDataUsed'', JBool True),
              (''contextLength'', JNum ''4''),
              (''isDemo'', JBool False)])
   \<and> fst (chatHandler (Some ''test-key'') answerHi (chatRequest ''hi'') freshWorld)
     = (200, [(''response'', JStr ''Hi''),
              (''sessionId'', JStr ''s1''),
              (''personalDataUsed'', JBool True),
              (''contextLength'', JNum ''0''),
              (''isDemo'', JBool False)])
   \<and> length (getContext ''s1'' (chat worldAfterFive)) = 10
   \<and> own (snd (fst (chatHandler (Some ''test-key'') answerHi (chatRequest ''more'') worldAfterFive)))
         ''contextLength'' = JNum ''12''
   \<and> length (getContext ''s1''
         (chat (snd (chatHandler (Some ''test-key'') answerHi (chatRequest ''more'') worldAfterFive))))
     = 10"
  by code_simp

text \<open>
  Demo mode in general: without a usable key, every request with a message is answered
  with the canned text around the message, and the state is returned as it was.
\<close>

lemma demo_mode_leaves_state:
  assumes "key = None \<or> key = Some [] \<or> key = Some ''demo-key''"
    and "message req = Some m" and "m \<noteq> []"
  shows "chatHandler key generate req w
           = ((200, [(''response'', JStr (demoResponse m)),
                     (''isDemo'', JBool True),
                     (''personalDataAvailable'', JBool False)]), w)"
  using assms by (auto simp: chatHandler_def Let_def)

text \<open>
  C3 (demo mode) fails on the code in one point: the demo response has the field
  \<open>personalDataAvailable\<close> and no field \<open>personalDataUsed\<close>, which is the name the
  handler uses when the model is configured. The rest holds: the response echoes the
  message, \<open>isDemo\<close> is true and the state, with the context window, is unchanged.
\<close>

theorem demo_response_lacks_personalDataUsed:
  "chatHandler None answerHi (chatRequest ''hello'') freshWorld
     = ((200, [(''response'', JStr (demoResponse ''hello'')),
               (''isDemo'', JBool True),
               (''personalDataAvailable'', JBool False)]), freshWorld)
   \<and> own (snd (fst (chatHandler None answerHi (chatRequest ''hello'') freshWorld)))
         ''personalDataUsed'' = JUndefined
   \<and> getContext ''s1'' (chat (snd (chatHandler None answerHi (chatRequest ''hello'') freshWorld)))
     = []"
  by (simp add: chatHandler_def chatRequest_def own_def getContext_def getOrEmpty_def alloc_def
      freshWorld_def emptyChat_def)

end
